theory Spec2Isabelle
  imports Main "HOL-Library.Sublist" "HOL-Library.Word"
begin

unbundle bit_operations_syntax

section \<open>The PATH scanner module of Dev-Janitor\<close>

text \<open>
  A shallow embedding of the PATH scanner (the second module of
  \<^verbatim>\<open>src/renderer/components/AICli/AICLIView.tsx\<close>, lines 315 to 800): \<^verbatim>\<open>parsePath\<close>,
  \<^verbatim>\<open>getVersionOutput\<close>, \<^verbatim>\<open>isExecutable\<close>, \<^verbatim>\<open>scanDirectory\<close>, \<^verbatim>\<open>scanAllPathDirectories\<close>,
  \<^verbatim>\<open>identifyInstallMethod\<close>, \<^verbatim>\<open>generateUninstallInstructions\<close> and \<^verbatim>\<open>getExtendedToolInfo\<close>.

  Conventions of the model:
  \<^item> a JavaScript string is a \<^typ>\<open>string\<close>, read as a sequence of code units below 256
    (the Latin-1 block); strings with other code units are outside the model;
  \<^item> an awaited operation that can reject (\<^verbatim>\<open>fsPromises.stat\<close>, \<^verbatim>\<open>access\<close>, \<^verbatim>\<open>readdir\<close>)
    returns \<open>errno + 'a\<close>, \<open>Inl\<close> being the rejection, and every \<^verbatim>\<open>try\<close>/\<^verbatim>\<open>catch\<close> of
    the source is a case distinction on that sum; an \<^verbatim>\<open>async\<close> function of the source
    returns \<open>errno + 'a\<close> as well, so that "never rejects" is a theorem and not a convention;
  \<^item> the file system is a snapshot that does not change during one scan, so the
    concurrent dispatch of \<^verbatim>\<open>Promise.all\<close> is a \<open>map\<close> that keeps the order of its input;
  \<^item> what the module imports and the source tree does not contain
    (\<^verbatim>\<open>isWindows\<close>, \<^verbatim>\<open>normalizePath\<close>, \<^verbatim>\<open>getAllToolPaths\<close>, \<^verbatim>\<open>executeSafe\<close> of
    \<^verbatim>\<open>./commandExecutor\<close>, \<^verbatim>\<open>parseVersion\<close> of \<^verbatim>\<open>./detectionEngine\<close>), Node's \<^verbatim>\<open>path\<close>
    functions and the process environment are parameters, collected in records.
\<close>

subsection \<open>JavaScript string operations\<close>

text \<open>
  \<^verbatim>\<open>String.prototype.toLowerCase\<close> on code units below 256: the capital letters
  \<^verbatim>\<open>A\<close> to \<^verbatim>\<open>Z\<close> (65 to 90) and the capital letters of the Latin-1 supplement (192 to 222,
  the multiplication sign 215 apart) move up by 32; every other unit is unchanged.
\<close>

definition is_upper_unit :: "nat \<Rightarrow> bool" where
  "is_upper_unit n \<longleftrightarrow>
     (65 \<le> n \<and> n \<le> 90) \<or> (192 \<le> n \<and> n \<le> 214) \<or> (216 \<le> n \<and> n \<le> 222)"

definition lower_unit :: "char \<Rightarrow> char" where
  "lower_unit c = (if is_upper_unit (of_char c) then char_of (of_char c + 32 :: nat) else c)"

definition toLowerCase :: "string \<Rightarrow> string" where
  "toLowerCase s = map lower_unit s"

text \<open>\<^verbatim>\<open>s.includes(pat)\<close>: \<open>pat\<close> occurs in \<open>s\<close> as a contiguous block.\<close>

fun str_includes :: "string \<Rightarrow> string \<Rightarrow> bool" where
  "str_includes [] pat = (pat = [])"
| "str_includes (c # cs) pat = (prefix pat (c # cs) \<or> str_includes cs pat)"

text \<open>
  \<^verbatim>\<open>String.prototype.trim\<close> removes white space and line terminators from both ends;
  below 256 these are the units 9 to 13, 32 and 160.
\<close>

definition is_space_unit :: "char \<Rightarrow> bool" where
  "is_space_unit c \<longleftrightarrow> (of_char c :: nat) \<in> {9, 10, 11, 12, 13, 32, 160}"

definition trim :: "string \<Rightarrow> string" where
  "trim s = rev (dropWhile is_space_unit (rev (dropWhile is_space_unit s)))"

text \<open>
  \<^verbatim>\<open>s.split(sep)\<close> for a separator of one code unit. The empty string splits into one
  empty segment. The second branch of the \<^verbatim>\<open>case\<close> is never taken (\<open>split_str\<close> returns
  at least one segment); it is there because HOL functions are total.
\<close>

fun split_str :: "char \<Rightarrow> string \<Rightarrow> string list" where
  "split_str sep [] = [[]]"
| "split_str sep (c # cs) =
     (if c = sep then [] # split_str sep cs
      else (case split_str sep cs of
              seg # segs \<Rightarrow> (c # seg) # segs
            | [] \<Rightarrow> [[c]]))"

text \<open>\<^verbatim>\<open>segs.join(sep)\<close>, the inverse of \<open>split_str\<close>, used to state what splitting means.\<close>

fun join_str :: "char \<Rightarrow> string list \<Rightarrow> string" where
  "join_str sep [] = []"
| "join_str sep [seg] = seg"
| "join_str sep (seg # segs) = seg @ sep # join_str sep segs"

text \<open>\<^verbatim>\<open>a || d\<close> for a possibly undefined string \<open>a\<close>: undefined and the empty string are falsy.\<close>

definition or_else :: "string option \<Rightarrow> string \<Rightarrow> string" where
  "or_else a d = (case a of None \<Rightarrow> d | Some s \<Rightarrow> if s = [] then d else s)"

subsection \<open>Data\<close>

text \<open>Rejections of the \<^verbatim>\<open>fs\<close> promises.\<close>

datatype errno = ENOENT | EACCES | ENOTDIR | ELOOP | EIO

text \<open>
  The values of \<^verbatim>\<open>ToolInfo['installMethod']\<close>. The type is declared in
  \<^verbatim>\<open>../shared/types\<close>, which the source tree does not contain; \<open>Other\<close> stands for any
  member of it that \<^verbatim>\<open>generateUninstallInstructions\<close> has no \<^verbatim>\<open>case\<close> for.
\<close>

datatype InstallMethod = Homebrew | Chocolatey | Apt | Npm | Pip | Manual | Other string

text \<open>The object that \<^verbatim>\<open>getExtendedToolInfo\<close> returns.\<close>

record ExtendedToolInfo =
  name :: string
  displayName :: string
  version :: "string option"
  path :: "string option"
  isInstalled :: bool
  installMethod :: InstallMethod
  category :: string
  allPaths :: "string list"
  uninstallInstructions :: "string list"

record ExecutableInfo =
  name :: string
  path :: string
  directory :: string

text \<open>The fields of \<^verbatim>\<open>fs.Stats\<close> that the module reads; \<^verbatim>\<open>&\<close> works on 32 bits.\<close>

record Stats =
  isFile :: bool
  mode :: "32 word"

text \<open>What \<^verbatim>\<open>executeSafe\<close> resolves to.\<close>

record CommandResult =
  success :: bool
  stdout :: "string option"
  stderr :: "string option"

text \<open>
  The host: \<^verbatim>\<open>process.platform\<close>, \<^verbatim>\<open>isWindows()\<close>, the two spellings of the search-path
  variable in \<^verbatim>\<open>process.env\<close>, \<^verbatim>\<open>normalizePath\<close>, and \<^verbatim>\<open>path.join\<close>, \<^verbatim>\<open>path.extname\<close>,
  \<^verbatim>\<open>path.basename\<close> of Node.
\<close>

record Host =
  platform :: string
  isWindows :: bool
  env_PATH :: "string option"
  env_Path :: "string option"
  normalizePath :: "string \<Rightarrow> string"
  path_join :: "string \<Rightarrow> string \<Rightarrow> string"
  path_extname :: "string \<Rightarrow> string"
  path_basename :: "string \<Rightarrow> string \<Rightarrow> string"

text \<open>The file system as \<^verbatim>\<open>fsPromises\<close> shows it.\<close>

record FileSystem =
  stat :: "string \<Rightarrow> errno + Stats"
  access :: "string \<Rightarrow> errno + unit"
  readdir :: "string \<Rightarrow> errno + string list"

text \<open>The collaborators of \<^verbatim>\<open>getExtendedToolInfo\<close>.\<close>

record Collaborators =
  getAllToolPaths :: "string \<Rightarrow> string list"
  executeSafe :: "string \<Rightarrow> CommandResult"
  parseVersion :: "string \<Rightarrow> string option"

subsection \<open>parsePath\<close>

definition getPathSeparator :: "Host \<Rightarrow> char" where
  "getPathSeparator h = (if isWindows h then CHR '';'' else CHR '':'')"

text \<open>\<^verbatim>\<open>process.env.PATH || process.env.Path || ''\<close>, the first line of \<^verbatim>\<open>parsePath\<close>.\<close>

definition pathEnv :: "Host \<Rightarrow> string" where
  "pathEnv h = or_else (env_PATH h) (or_else (env_Path h) [])"

definition parsePath :: "Host \<Rightarrow> string list" where
  "parsePath h =
     (let separator = getPathSeparator h
      in map (normalizePath h)
           (filter (\<lambda>p. length p > 0)
              (map trim (split_str separator (pathEnv h)))))"

subsection \<open>getVersionOutput\<close>

text \<open>
  \<^verbatim>\<open>result.stdout && result.stdout.trim()\<close> is truthy when the field is defined, not
  empty, and not empty after trimming; \<open>truthy_trimmed\<close> returns the field in that case.
\<close>

definition truthy_trimmed :: "string option \<Rightarrow> string option" where
  "truthy_trimmed a =
     (case a of
        None \<Rightarrow> None
      | Some s \<Rightarrow> if s \<noteq> [] \<and> trim s \<noteq> [] then Some s else None)"

definition getVersionOutput :: "CommandResult \<Rightarrow> string" where
  "getVersionOutput result =
     (case truthy_trimmed (stdout result) of
        Some out \<Rightarrow> out
      | None \<Rightarrow>
          (case truthy_trimmed (stderr result) of
             Some err \<Rightarrow> err
           | None \<Rightarrow> []))"

subsection \<open>isExecutable\<close>

definition executable_extensions :: "string list" where
  "executable_extensions = [''.exe'', ''.cmd'', ''.bat'', ''.com'', ''.ps1'']"

definition S_IXUSR :: "32 word" where "S_IXUSR = 64"
definition S_IXGRP :: "32 word" where "S_IXGRP = 8"
definition S_IXOTH :: "32 word" where "S_IXOTH = 1"

text \<open>The body of the \<^verbatim>\<open>try\<close> block: a rejected \<^verbatim>\<open>stat\<close> leaves it as \<open>Inl\<close>.\<close>

definition isExecutable_try :: "Host \<Rightarrow> FileSystem \<Rightarrow> string \<Rightarrow> errno + bool" where
  "isExecutable_try h fs filePath =
     (case stat fs filePath of
        Inl e \<Rightarrow> Inl e
      | Inr stats \<Rightarrow>
          if \<not> isFile stats then Inr False
          else if isWindows h then
            (let ext = toLowerCase (path_extname h filePath)
             in Inr (ext \<in> set executable_extensions))
          else
            (let m = mode stats
             in Inr (m AND S_IXUSR \<noteq> 0 \<or> m AND S_IXGRP \<noteq> 0 \<or> m AND S_IXOTH \<noteq> 0)))"

definition isExecutable :: "Host \<Rightarrow> FileSystem \<Rightarrow> string \<Rightarrow> errno + bool" where
  "isExecutable h fs filePath =
     (case isExecutable_try h fs filePath of
        Inl e \<Rightarrow> Inr False
      | Inr b \<Rightarrow> Inr b)"

subsection \<open>scanDirectory\<close>

text \<open>\<^verbatim>\<open>Promise.all\<close>: the values in the order of the promises, or a rejection.\<close>

fun promise_all :: "('e + 'a) list \<Rightarrow> 'e + 'a list" where
  "promise_all [] = Inr []"
| "promise_all (p # ps) =
     (case p of
        Inl e \<Rightarrow> Inl e
      | Inr v \<Rightarrow> (case promise_all ps of Inl e \<Rightarrow> Inl e | Inr vs \<Rightarrow> Inr (v # vs)))"

text \<open>The \<^verbatim>\<open>async (file) => ...\<close> callback that checks one entry of the listing.\<close>

definition check_file ::
  "Host \<Rightarrow> FileSystem \<Rightarrow> string \<Rightarrow> string \<Rightarrow> errno + (string \<times> string \<times> bool)" where
  "check_file h fs dir file =
     (let filePath = path_join h dir file
      in case isExecutable h fs filePath of
           Inl e \<Rightarrow> Inl e
         | Inr isExec \<Rightarrow> Inr (file, filePath, isExec))"

text \<open>The name of an executable: on Windows a recognised extension is cut off.\<close>

definition executable_name :: "Host \<Rightarrow> string \<Rightarrow> string" where
  "executable_name h file =
     (if isWindows h then
        (let ext = toLowerCase (path_extname h file)
         in if ext \<in> set executable_extensions then path_basename h file ext else file)
      else file)"

text \<open>One round of the \<^verbatim>\<open>for\<close> loop over \<^verbatim>\<open>checks\<close>.\<close>

definition push_executable ::
  "Host \<Rightarrow> string \<Rightarrow> ExecutableInfo list \<Rightarrow> string \<times> string \<times> bool \<Rightarrow> ExecutableInfo list" where
  "push_executable h dir executables chk =
     (case chk of (file, filePath, isExec) \<Rightarrow>
        if isExec then
          executables @
            [\<lparr>name = toLowerCase (executable_name h file),
              path = normalizePath h filePath,
              directory = normalizePath h dir\<rparr>]
        else executables)"

text \<open>
  The body of the outer \<^verbatim>\<open>try\<close> block. A rejected \<^verbatim>\<open>access\<close> is caught by the inner
  \<^verbatim>\<open>catch\<close>, which returns the (still empty) list; a rejected \<^verbatim>\<open>readdir\<close> or check leaves the
  block as \<open>Inl\<close>.
\<close>

definition scanDirectory_try :: "Host \<Rightarrow> FileSystem \<Rightarrow> string \<Rightarrow> errno + ExecutableInfo list" where
  "scanDirectory_try h fs dir =
     (case access fs dir of
        Inl e \<Rightarrow> Inr []
      | Inr u \<Rightarrow>
          (case readdir fs dir of
             Inl e \<Rightarrow> Inl e
           | Inr files \<Rightarrow>
               (case promise_all (map (check_file h fs dir) files) of
                  Inl e \<Rightarrow> Inl e
                | Inr checks \<Rightarrow> Inr (foldl (push_executable h dir) [] checks))))"

text \<open>
  The outer \<^verbatim>\<open>catch\<close> falls through to \<^verbatim>\<open>return executables\<close>. Every operation that can
  reject comes before the first \<^verbatim>\<open>push\<close>, so the list is empty when the \<^verbatim>\<open>catch\<close> runs.
\<close>

definition scanDirectory :: "Host \<Rightarrow> FileSystem \<Rightarrow> string \<Rightarrow> errno + ExecutableInfo list" where
  "scanDirectory h fs dir =
     (case scanDirectory_try h fs dir of
        Inl e \<Rightarrow> Inr []
      | Inr executables \<Rightarrow> Inr executables)"

subsection \<open>scanAllPathDirectories\<close>

definition exec_key :: "ExecutableInfo \<Rightarrow> string" where
  "exec_key exec = ExecutableInfo.name exec @ '':'' @ ExecutableInfo.path exec"

text \<open>The body of the inner loop; the state is \<^verbatim>\<open>seen\<close> and \<^verbatim>\<open>allExecutables\<close>.\<close>

definition add_exec ::
  "string set \<times> ExecutableInfo list \<Rightarrow> ExecutableInfo \<Rightarrow> string set \<times> ExecutableInfo list" where
  "add_exec st exec =
     (case st of (seen, allExecutables) \<Rightarrow>
        (let key = exec_key exec
         in if key \<notin> seen then (insert key seen, allExecutables @ [exec])
            else (seen, allExecutables)))"

definition merge_results :: "ExecutableInfo list list \<Rightarrow> ExecutableInfo list" where
  "merge_results results =
     snd (foldl (\<lambda>st executables. foldl add_exec st executables) ({}, []) results)"

definition scanAllPathDirectories :: "Host \<Rightarrow> FileSystem \<Rightarrow> errno + ExecutableInfo list" where
  "scanAllPathDirectories h fs =
     (let pathDirs = parsePath h
      in case promise_all (map (scanDirectory h fs) pathDirs) of
           Inl e \<Rightarrow> Inl e
         | Inr results \<Rightarrow> Inr (merge_results results))"

subsection \<open>identifyInstallMethod\<close>

definition identifyInstallMethod :: "string \<Rightarrow> string \<Rightarrow> InstallMethod" where
  "identifyInstallMethod process_platform toolPath =
     (if toolPath = [] then Manual
      else
        (let lowerPath = toLowerCase toolPath
         in if str_includes lowerPath ''/opt/homebrew'' \<or>
               str_includes lowerPath ''/usr/local/cellar'' \<or>
               str_includes lowerPath ''homebrew'' then Homebrew
            else if str_includes lowerPath ''chocolatey'' \<or>
                    str_includes lowerPath ''choco'' then Chocolatey
            else if str_includes lowerPath ''/usr/bin'' \<and> process_platform = ''linux'' then Apt
            else if str_includes lowerPath ''node_modules'' \<or>
                    str_includes lowerPath ''npm'' then Npm
            else if str_includes lowerPath ''site-packages'' \<or>
                    str_includes lowerPath ''pip'' \<or>
                    str_includes lowerPath ''python'' then Pip
            else Manual))"

subsection \<open>generateUninstallInstructions\<close>

definition generateUninstallInstructions ::
  "Host \<Rightarrow> string \<Rightarrow> InstallMethod \<Rightarrow> string \<Rightarrow> string list" where
  "generateUninstallInstructions h toolName meth toolPath =
     (case meth of
        Homebrew \<Rightarrow>
          [''brew uninstall '' @ toolName,
           ''# Or force uninstall: brew uninstall --force '' @ toolName]
      | Chocolatey \<Rightarrow>
          [''choco uninstall '' @ toolName,
           ''# Or force uninstall: choco uninstall '' @ toolName @ '' --force'']
      | Apt \<Rightarrow>
          [''sudo apt remove '' @ toolName,
           ''# Or purge (remove config): sudo apt purge '' @ toolName]
      | Npm \<Rightarrow> [''npm uninstall -g '' @ toolName]
      | Pip \<Rightarrow>
          [''pip uninstall '' @ toolName,
           ''# Or: pip3 uninstall '' @ toolName]
      | _ \<Rightarrow>
          if toolPath \<noteq> [] then
            if isWindows h then
              [''# Manual removal required'',
               ''# Delete file: '' @ toolPath,
               ''# Or check Programs and Features in Control Panel'']
            else
              [''# Manual removal required'',
               ''sudo rm '' @ toolPath,
               ''# Or check if installed via system package manager'']
          else
            [''# Unable to determine uninstall method'',
             ''# Please check your system'' @ [CHR 0x27] @ ''s package manager''])"

subsection \<open>getExtendedToolInfo\<close>

definition getExtendedToolInfo :: "Host \<Rightarrow> Collaborators \<Rightarrow> string \<Rightarrow> ExtendedToolInfo" where
  "getExtendedToolInfo h co toolName =
     (let paths = getAllToolPaths co toolName;
          versionResult = executeSafe co (toolName @ '' --version'');
          ver = parseVersion co (getVersionOutput versionResult);
          primaryPath = (case paths of [] \<Rightarrow> None | p # ps \<Rightarrow> Some p);
          meth = identifyInstallMethod (platform h) (or_else primaryPath []);
          instructions = generateUninstallInstructions h toolName meth (or_else primaryPath [])
      in \<lparr>ExtendedToolInfo.name = toolName,
          displayName = toolName,
          version = ver,
          ExtendedToolInfo.path = primaryPath,
          isInstalled = (length paths > 0 \<and> success versionResult),
          installMethod = meth,
          category = ''tool'',
          allPaths = paths,
          uninstallInstructions = instructions\<rparr>)"

subsection \<open>The classification rules as the specification words them\<close>

text \<open>
  The specification describes \<^verbatim>\<open>identifyInstallMethod\<close> as an ordered list of rules, the
  first matching rule deciding. \<open>spec_contains p s\<close> is "the path \<open>p\<close> contains \<open>s\<close>", letter case
  ignored; \<open>spec_rules\<close> is the list of rules 1 to 5, each a condition on the path with
  the method it yields; \<open>spec_identifyInstallMethod\<close> takes the first rule whose condition holds.
  These three definitions follow the specification, not the source.
\<close>

definition spec_contains :: "string \<Rightarrow> string \<Rightarrow> bool" where
  "spec_contains p s = str_includes (toLowerCase p) (toLowerCase s)"

definition spec_rules :: "string \<Rightarrow> ((string \<Rightarrow> bool) \<times> InstallMethod) list" where
  "spec_rules process_platform =
     [(\<lambda>p. spec_contains p ''/opt/homebrew'' \<or> spec_contains p ''/usr/local/cellar'' \<or>
            spec_contains p ''homebrew'', Homebrew),
      (\<lambda>p. spec_contains p ''chocolatey'' \<or> spec_contains p ''choco'', Chocolatey),
      (\<lambda>p. spec_contains p ''/usr/bin'' \<and> process_platform = ''linux'', Apt),
      (\<lambda>p. spec_contains p ''node_modules'' \<or> spec_contains p ''npm'', Npm),
      (\<lambda>p. spec_contains p ''site-packages'' \<or> spec_contains p ''pip'' \<or>
            spec_contains p ''python'', Pip)]"

definition spec_identifyInstallMethod :: "string \<Rightarrow> string \<Rightarrow> InstallMethod" where
  "spec_identifyInstallMethod process_platform p =
     (if p = [] then Manual
      else case find (\<lambda>rule. fst rule p) (spec_rules process_platform) of
             Some rule \<Rightarrow> snd rule
           | None \<Rightarrow> Manual)"

subsection \<open>The version text as the specification words it\<close>

text \<open>
  "Prefer non-empty stdout, else non-empty stderr, else empty string", read literally: a
  field counts when it is defined and has at least one code unit.
\<close>

definition spec_getVersionOutput :: "CommandResult \<Rightarrow> string" where
  "spec_getVersionOutput result =
     (case stdout result of
        Some out \<Rightarrow>
          if out \<noteq> [] then out
          else (case stderr result of Some err \<Rightarrow> err | None \<Rightarrow> [])
      | None \<Rightarrow> (case stderr result of Some err \<Rightarrow> err | None \<Rightarrow> []))"

text \<open>A field is blank when it is undefined or holds white space only.\<close>

definition blank :: "string option \<Rightarrow> bool" where
  "blank a = (case a of None \<Rightarrow> True | Some s \<Rightarrow> list_all is_space_unit s)"

subsection \<open>Auxiliary functions for the aggregation loop\<close>

text \<open>
  \<open>first_occurrences seen xs\<close> keeps the records of \<open>xs\<close> whose key is neither in \<open>seen\<close> nor
  carried by an earlier record of \<open>xs\<close>; the loops of \<^verbatim>\<open>scanAllPathDirectories\<close> are shown
  below to compute it.
\<close>

fun first_occurrences :: "string set \<Rightarrow> ExecutableInfo list \<Rightarrow> ExecutableInfo list" where
  "first_occurrences seen [] = []"
| "first_occurrences seen (x # xs) =
     (if exec_key x \<in> seen then first_occurrences seen xs
      else x # first_occurrences (insert (exec_key x) seen) xs)"

text \<open>The list that \<^verbatim>\<open>scanDirectory\<close> resolves to (it never rejects, see below).\<close>

definition scan_list :: "Host \<Rightarrow> FileSystem \<Rightarrow> string \<Rightarrow> ExecutableInfo list" where
  "scan_list h fs dir =
     (case scanDirectory h fs dir of Inl e \<Rightarrow> [] | Inr executables \<Rightarrow> executables)"

text \<open>
  Every record the scans produce, in the order in which the loops of
  \<^verbatim>\<open>scanAllPathDirectories\<close> visit them: search-path order first, listing order within one
  directory.
\<close>

definition scanned_records :: "Host \<Rightarrow> FileSystem \<Rightarrow> ExecutableInfo list" where
  "scanned_records h fs = concat (map (scan_list h fs) (parsePath h))"

subsection \<open>Sample hosts, file systems and collaborators\<close>

text \<open>
  Concrete inputs on which the theorems below are evaluated. \<open>sample_join\<close>,
  \<open>sample_extname\<close> and \<open>sample_basename\<close> stand in for \<^verbatim>\<open>path.join\<close>, \<^verbatim>\<open>path.extname\<close> and
  \<^verbatim>\<open>path.basename\<close> on paths written with \<^verbatim>\<open>/\<close>; no theorem about the module depends on
  them, they only fill the parameters of the sample hosts.
\<close>

definition last_component :: "string \<Rightarrow> string" where
  "last_component s = rev (takeWhile (\<lambda>c. c \<noteq> CHR ''/'') (rev s))"

definition sample_join :: "string \<Rightarrow> string \<Rightarrow> string" where
  "sample_join dir file = dir @ ''/'' @ file"

definition sample_extname :: "string \<Rightarrow> string" where
  "sample_extname s =
     (let b = last_component s
      in if CHR ''.'' \<in> set (drop 1 b)
         then CHR ''.'' # rev (takeWhile (\<lambda>c. c \<noteq> CHR ''.'') (rev b))
         else [])"

definition sample_basename :: "string \<Rightarrow> string \<Rightarrow> string" where
  "sample_basename s ext =
     (let b = last_component s
      in if ext \<noteq> [] \<and> suffix ext b \<and> b \<noteq> ext then take (length b - length ext) b else b)"

text \<open>
  A Linux host. Its search path has a segment with a leading blank, an empty segment, a
  directory that does not exist, one that cannot be listed, and \<^verbatim>\<open>/usr/bin\<close> twice.
\<close>

definition linux_host :: Host where
  "linux_host =
     \<lparr>platform = ''linux'', isWindows = False,
      env_PATH = Some ''/usr/local/bin: /usr/bin ::/opt/missing:/root/secret:/usr/bin:/opt/tools'',
      env_Path = None,
      normalizePath = (\<lambda>p. p), path_join = sample_join,
      path_extname = sample_extname, path_basename = sample_basename\<rparr>"

text \<open>A Windows host whose search path is under the spelling \<^verbatim>\<open>Path\<close>.\<close>

definition windows_host :: Host where
  "windows_host =
     \<lparr>platform = ''win32'', isWindows = True,
      env_PATH = None, env_Path = Some ''C:/Tools;C:/Windows'',
      normalizePath = (\<lambda>p. p), path_join = sample_join,
      path_extname = sample_extname, path_basename = sample_basename\<rparr>"

text \<open>A host on which neither spelling of the variable is set.\<close>

definition bare_host :: Host where
  "bare_host =
     \<lparr>platform = ''darwin'', isWindows = False,
      env_PATH = None, env_Path = Some [],
      normalizePath = (\<lambda>p. p), path_join = sample_join,
      path_extname = sample_extname, path_basename = sample_basename\<rparr>"

text \<open>
  A POSIX file system: \<^verbatim>\<open>git\<close> is installed twice and \<^verbatim>\<open>/opt/tools/Janitor\<close> once (mode
  0755), \<^verbatim>\<open>/usr/bin/notes.txt\<close> is a
  regular file without an execute bit (mode 0644), \<^verbatim>\<open>/usr/bin/X11\<close> is a directory,
  \<^verbatim>\<open>/usr/bin/dangling\<close> is a broken symbolic link, and \<^verbatim>\<open>/root/secret\<close> exists but cannot be
  listed.
\<close>

definition posix_fs :: FileSystem where
  "posix_fs =
     \<lparr>stat = (\<lambda>p.
        if p = ''/usr/local/bin/git'' then Inr \<lparr>isFile = True, mode = 33261\<rparr>
        else if p = ''/usr/bin/git'' then Inr \<lparr>isFile = True, mode = 33261\<rparr>
        else if p = ''/usr/bin/notes.txt'' then Inr \<lparr>isFile = True, mode = 33188\<rparr>
        else if p = ''/usr/bin/X11'' then Inr \<lparr>isFile = False, mode = 16877\<rparr>
        else if p = ''/opt/tools/Janitor'' then Inr \<lparr>isFile = True, mode = 33261\<rparr>
        else Inl ENOENT),
      access = (\<lambda>d.
        if d = ''/usr/local/bin'' \<or> d = ''/usr/bin'' \<or> d = ''/root/secret'' \<or> d = ''/opt/tools''
        then Inr ()
        else Inl ENOENT),
      readdir = (\<lambda>d.
        if d = ''/usr/local/bin'' then Inr [''git'']
        else if d = ''/usr/bin'' then Inr [''git'', ''notes.txt'', ''X11'', ''dangling'']
        else if d = ''/opt/tools'' then Inr [''Janitor'']
        else if d = ''/root/secret'' then Inl EACCES
        else Inl ENOENT)\<rparr>"

text \<open>
  A Windows file system: \<^verbatim>\<open>run.CMD\<close> and \<^verbatim>\<open>tool.txt\<close> are regular files with every
  permission bit set (mode 0777).
\<close>

definition windows_fs :: FileSystem where
  "windows_fs =
     \<lparr>stat = (\<lambda>p.
        if p = ''C:/Tools/run.CMD'' then Inr \<lparr>isFile = True, mode = 33279\<rparr>
        else if p = ''C:/Tools/tool.txt'' then Inr \<lparr>isFile = True, mode = 33279\<rparr>
        else Inl ENOENT),
      access = (\<lambda>d. if d = ''C:/Tools'' then Inr () else Inl ENOENT),
      readdir = (\<lambda>d. if d = ''C:/Tools'' then Inr [''run.CMD'', ''tool.txt''] else Inl ENOENT)\<rparr>"

text \<open>The records that scanning \<open>posix_fs\<close> from \<open>linux_host\<close> produces.\<close>

definition git_local :: ExecutableInfo where
  "git_local = \<lparr>name = ''git'', path = ''/usr/local/bin/git'', directory = ''/usr/local/bin''\<rparr>"

definition git_usr :: ExecutableInfo where
  "git_usr = \<lparr>name = ''git'', path = ''/usr/bin/git'', directory = ''/usr/bin''\<rparr>"

definition janitor :: ExecutableInfo where
  "janitor = \<lparr>name = ''janitor'', path = ''/opt/tools/Janitor'', directory = ''/opt/tools''\<rparr>"

text \<open>A stand-in for \<^verbatim>\<open>parseVersion\<close>: the text itself, when there is any.\<close>

definition sample_parseVersion :: "string \<Rightarrow> string option" where
  "sample_parseVersion text = (if text = [] then None else Some text)"

text \<open>A tool that the lookup finds and whose version probe fails.\<close>

definition broken_install :: Collaborators where
  "broken_install =
     \<lparr>getAllToolPaths = (\<lambda>n. if n = ''foo'' then [''/usr/local/bin/foo''] else []),
      executeSafe = (\<lambda>cmd. \<lparr>success = False, stdout = None, stderr = Some ''foo: not found''\<rparr>),
      parseVersion = sample_parseVersion\<rparr>"

text \<open>A lookup that reports the same path twice.\<close>

definition repeated_lookup :: Collaborators where
  "repeated_lookup =
     \<lparr>getAllToolPaths = (\<lambda>n. [''/usr/bin/foo'', ''/usr/bin/foo'']),
      executeSafe = (\<lambda>cmd. \<lparr>success = True, stdout = Some ''1.2.3'', stderr = None\<rparr>),
      parseVersion = sample_parseVersion\<rparr>"

text \<open>A probe that printed one blank to stdout and the version to stderr.\<close>

definition blank_stdout :: CommandResult where
  "blank_stdout = \<lparr>success = True, stdout = Some '' '', stderr = Some ''v1.2.3''\<rparr>"

section \<open>Properties\<close>

subsection \<open>Strings\<close>

lemma str_includes_sublist: "str_includes s pat \<longleftrightarrow> sublist pat s"
  by (induction s) (auto simp: sublist_Cons_right)

lemma not_upper_lower_unit: "\<not> is_upper_unit (of_char (lower_unit c))"
proof (cases "is_upper_unit (of_char c)")
  case True
  then have "(of_char (lower_unit c) :: nat) = of_char c + 32"
    by (auto simp: lower_unit_def is_upper_unit_def)
  with True show ?thesis
    unfolding is_upper_unit_def by arith
next
  case False
  then show ?thesis by (simp add: lower_unit_def)
qed

lemma lower_unit_idem: "lower_unit (lower_unit c) = lower_unit c"
  using not_upper_lower_unit [of c] by (simp add: lower_unit_def [of "lower_unit c"])

lemma toLowerCase_idem: "toLowerCase (toLowerCase s) = toLowerCase s"
  by (simp add: toLowerCase_def lower_unit_idem)

lemma toLowerCase_Nil_iff: "toLowerCase s = [] \<longleftrightarrow> s = []"
  by (simp add: toLowerCase_def)

lemma sublist_map_iff:
  "sublist (map f s) (map f p) \<longleftrightarrow> (\<exists>u. sublist u p \<and> map f u = map f s)"
proof
  assume "sublist (map f s) (map f p)"
  then obtain xs ys where "map f p = xs @ map f s @ ys"
    by (auto simp: sublist_def)
  then obtain p1 p2 p3 where "p = p1 @ p2 @ p3" "map f p2 = map f s"
    by (auto simp: map_eq_append_conv append_eq_map_conv)
  then show "\<exists>u. sublist u p \<and> map f u = map f s"
    by (auto simp: sublist_def)
next
  assume "\<exists>u. sublist u p \<and> map f u = map f s"
  then obtain u xs ys where "p = xs @ u @ ys" "map f u = map f s"
    by (auto simp: sublist_def)
  then have "map f p = map f xs @ map f s @ map f ys" by simp
  then show "sublist (map f s) (map f p)"
    unfolding sublist_def by blast
qed

text \<open>
  What \<open>spec_contains\<close> computes: some contiguous block of the path equals the pattern up
  to letter case.
\<close>

lemma spec_contains_iff:
  "spec_contains p s \<longleftrightarrow> (\<exists>u. sublist u p \<and> toLowerCase u = toLowerCase s)"
  by (simp add: spec_contains_def str_includes_sublist toLowerCase_def sublist_map_iff)

text \<open>The patterns of the rules are in lower case already.\<close>

lemma lower_opt_homebrew: "toLowerCase ''/opt/homebrew'' = ''/opt/homebrew''" by code_simp
lemma lower_cellar: "toLowerCase ''/usr/local/cellar'' = ''/usr/local/cellar''" by code_simp
lemma lower_homebrew: "toLowerCase ''homebrew'' = ''homebrew''" by code_simp
lemma lower_chocolatey: "toLowerCase ''chocolatey'' = ''chocolatey''" by code_simp
lemma lower_choco: "toLowerCase ''choco'' = ''choco''" by code_simp
lemma lower_usr_bin: "toLowerCase ''/usr/bin'' = ''/usr/bin''" by code_simp
lemma lower_node_modules: "toLowerCase ''node_modules'' = ''node_modules''" by code_simp
lemma lower_npm: "toLowerCase ''npm'' = ''npm''" by code_simp
lemma lower_site_packages: "toLowerCase ''site-packages'' = ''site-packages''" by code_simp
lemma lower_pip: "toLowerCase ''pip'' = ''pip''" by code_simp
lemma lower_python: "toLowerCase ''python'' = ''python''" by code_simp

lemmas pattern_lower =
  lower_opt_homebrew lower_cellar lower_homebrew lower_chocolatey lower_choco lower_usr_bin
  lower_node_modules lower_npm lower_site_packages lower_pip lower_python

lemma lower_usr_bin_foo: "toLowerCase ''/usr/bin/foo'' = ''/usr/bin/foo''" by code_simp

lemma find_first_index:
  assumes "i < length rs" and "P (rs ! i)" and "\<forall>j<i. \<not> P (rs ! j)"
  shows "find P rs = Some (rs ! i)"
  using assms by (auto simp: find_Some_iff)

subsection \<open>identifyInstallMethod\<close>

text \<open>
  Claim C1. For every path and every platform identifier, \<^verbatim>\<open>identifyInstallMethod\<close> returns
  the method that the ordered rules of the specification choose, the first matching rule
  deciding: it equals \<open>spec_identifyInstallMethod\<close>; the empty path is manual; a path whose
  first matching rule is rule \<open>i\<close> gets the method of rule \<open>i\<close>, whatever later rules match;
  a path that no rule matches is manual. \<^verbatim>\<open>/usr/bin/foo\<close> is apt on Linux and manual on every
  other platform. "Contains" ignores letter case in every rule, as the source tests every
  rule on the lower-cased path.
\<close>

theorem identifyInstallMethod_first_match:
  "identifyInstallMethod plat p = spec_identifyInstallMethod plat p \<and>
   identifyInstallMethod plat [] = Manual \<and>
   (q \<noteq> [] \<and> i < length (spec_rules plat) \<and> fst (spec_rules plat ! i) q \<and>
      (\<forall>j<i. \<not> fst (spec_rules plat ! j) q)
      \<longrightarrow> identifyInstallMethod plat q = snd (spec_rules plat ! i)) \<and>
   (r \<noteq> [] \<and> (\<forall>rule\<in>set (spec_rules plat). \<not> fst rule r)
      \<longrightarrow> identifyInstallMethod plat r = Manual) \<and>
   identifyInstallMethod ''linux'' ''/usr/bin/foo'' = Apt \<and>
   (plat \<noteq> ''linux'' \<longrightarrow> identifyInstallMethod plat ''/usr/bin/foo'' = Manual)"
proof -
  have eq: "identifyInstallMethod plat s = spec_identifyInstallMethod plat s" for s
    by (simp add: identifyInstallMethod_def spec_identifyInstallMethod_def spec_rules_def
        spec_contains_def pattern_lower Let_def)
  have first: "identifyInstallMethod plat q = snd (spec_rules plat ! i)"
    if "q \<noteq> []" "i < length (spec_rules plat)" "fst (spec_rules plat ! i) q"
       "\<forall>j<i. \<not> fst (spec_rules plat ! j) q"
  proof -
    have "find (\<lambda>rule. fst rule q) (spec_rules plat) = Some (spec_rules plat ! i)"
      using that(2-4) by (intro find_first_index) auto
    with that(1) show ?thesis by (simp add: eq spec_identifyInstallMethod_def)
  qed
  have none: "identifyInstallMethod plat r = Manual"
    if "r \<noteq> []" "\<forall>rule\<in>set (spec_rules plat). \<not> fst rule r"
  proof -
    have "find (\<lambda>rule. fst rule r) (spec_rules plat) = None"
      using that(2) by (auto simp: find_None_iff)
    with that(1) show ?thesis by (simp add: eq spec_identifyInstallMethod_def)
  qed
  have apt: "identifyInstallMethod ''linux'' ''/usr/bin/foo'' = Apt"
    by (simp add: identifyInstallMethod_def lower_usr_bin_foo)
  have manual: "identifyInstallMethod plat ''/usr/bin/foo'' = Manual" if "plat \<noteq> ''linux''"
    using that by (simp add: identifyInstallMethod_def lower_usr_bin_foo)
  have empty: "identifyInstallMethod plat [] = Manual"
    by (simp add: identifyInstallMethod_def)
  from eq first none apt manual empty show ?thesis by blast
qed

text \<open>
  On macOS, \<^verbatim>\<open>/usr/lib/python3/node_modules/foo\<close> matches the npm rule (index 3) and the pip
  rule (index 4) and no earlier rule: it is npm. \<^verbatim>\<open>/home/me/bin/foo\<close> matches no rule.
\<close>

lemma lower_python_npm:
  "toLowerCase ''/usr/lib/python3/node_modules/foo'' = ''/usr/lib/python3/node_modules/foo''"
  by code_simp

lemma lower_home_foo: "toLowerCase ''/home/me/bin/foo'' = ''/home/me/bin/foo''"
  by code_simp

theorem identifyInstallMethod_first_match_witness:
  "''/usr/lib/python3/node_modules/foo'' \<noteq> [] \<and>
   3 < length (spec_rules ''darwin'') \<and>
   fst (spec_rules ''darwin'' ! 3) ''/usr/lib/python3/node_modules/foo'' \<and>
   fst (spec_rules ''darwin'' ! 4) ''/usr/lib/python3/node_modules/foo'' \<and>
   \<not> fst (spec_rules ''darwin'' ! 0) ''/usr/lib/python3/node_modules/foo'' \<and>
   \<not> fst (spec_rules ''darwin'' ! 1) ''/usr/lib/python3/node_modules/foo'' \<and>
   \<not> fst (spec_rules ''darwin'' ! 2) ''/usr/lib/python3/node_modules/foo'' \<and>
   identifyInstallMethod ''darwin'' ''/usr/lib/python3/node_modules/foo'' = Npm \<and>
   ''/home/me/bin/foo'' \<noteq> [] \<and>
   list_all (\<lambda>rule. \<not> fst rule ''/home/me/bin/foo'') (spec_rules ''darwin'') \<and>
   identifyInstallMethod ''darwin'' ''/home/me/bin/foo'' = Manual \<and>
   ''darwin'' \<noteq> ''linux'' \<and>
   identifyInstallMethod ''darwin'' ''/usr/bin/foo'' = Manual"
proof -
  have less3: "j < 3 \<longleftrightarrow> j = 0 \<or> j = 1 \<or> j = 2" for j :: nat by arith
  have match:
    "3 < length (spec_rules ''darwin'') \<and>
     fst (spec_rules ''darwin'' ! 3) ''/usr/lib/python3/node_modules/foo'' \<and>
     fst (spec_rules ''darwin'' ! 4) ''/usr/lib/python3/node_modules/foo''"
    by (simp add: spec_rules_def spec_contains_def pattern_lower lower_python_npm)
  have earlier:
    "\<not> fst (spec_rules ''darwin'' ! 0) ''/usr/lib/python3/node_modules/foo'' \<and>
     \<not> fst (spec_rules ''darwin'' ! 1) ''/usr/lib/python3/node_modules/foo'' \<and>
     \<not> fst (spec_rules ''darwin'' ! 2) ''/usr/lib/python3/node_modules/foo''"
    by (simp add: spec_rules_def spec_contains_def pattern_lower lower_python_npm)
  then have hyp_q: "\<forall>j<3. \<not> fst (spec_rules ''darwin'' ! j) ''/usr/lib/python3/node_modules/foo''"
    by (auto simp: less3)
  have no_rule: "list_all (\<lambda>rule. \<not> fst rule ''/home/me/bin/foo'') (spec_rules ''darwin'')"
    by (simp add: spec_rules_def spec_contains_def pattern_lower lower_home_foo)
  then have hyp_r: "\<forall>rule\<in>set (spec_rules ''darwin''). \<not> fst rule ''/home/me/bin/foo''"
    by (simp add: list_all_iff)
  have npm: "snd (spec_rules ''darwin'' ! 3) = Npm"
    by (simp add: spec_rules_def)
  note inst = identifyInstallMethod_first_match
      [of "''darwin''" "''/usr/lib/python3/node_modules/foo''"
          "''/usr/lib/python3/node_modules/foo''" 3 "''/home/me/bin/foo''"]
  from inst match hyp_q
  have "identifyInstallMethod ''darwin'' ''/usr/lib/python3/node_modules/foo'' =
      snd (spec_rules ''darwin'' ! 3)"
    by blast
  with npm
  have c1: "identifyInstallMethod ''darwin'' ''/usr/lib/python3/node_modules/foo'' = Npm"
    by simp
  from inst hyp_r
  have c2: "identifyInstallMethod ''darwin'' ''/home/me/bin/foo'' = Manual"
    by blast
  from inst
  have c3: "identifyInstallMethod ''darwin'' ''/usr/bin/foo'' = Manual"
    by blast
  from match earlier no_rule c1 c2 c3 show ?thesis by simp
qed

text \<open>The literal inputs of the specification's provenance test.\<close>

lemma identifyInstallMethod_examples:
  "identifyInstallMethod ''darwin'' ''/opt/homebrew/bin/foo'' = Homebrew"
  "identifyInstallMethod ''win32''
     (''C:'' @ [CHR 0x5C] @ ''ProgramData'' @ [CHR 0x5C] @ ''chocolatey'' @ [CHR 0x5C] @ ''bin'' @
      [CHR 0x5C] @ ''foo.exe'') = Chocolatey"
  "identifyInstallMethod ''linux'' ''/usr/lib/node_modules/foo/bin/foo'' = Npm"
  "identifyInstallMethod ''linux'' ''/usr/lib/python3.11/site-packages/foo'' = Pip"
  "identifyInstallMethod ''linux'' [] = Manual"
  by code_simp+

text \<open>
  Claim C10. With the platform fixed, \<^verbatim>\<open>identifyInstallMethod\<close> gives a path and its
  lower-cased form the same method: every rule is tested on the lower-cased path, and
  lower-casing twice is lower-casing once.
\<close>

theorem identifyInstallMethod_lower_case:
  "identifyInstallMethod plat (toLowerCase p) = identifyInstallMethod plat p"
  by (simp add: identifyInstallMethod_def toLowerCase_idem toLowerCase_Nil_iff)

lemma lower_chocolatey_path:
  "toLowerCase ''C:/ProgramData/CHOCOLATEY/bin/Foo.EXE'' = ''c:/programdata/chocolatey/bin/foo.exe''"
  by code_simp

theorem identifyInstallMethod_lower_case_witness:
  "identifyInstallMethod ''win32'' ''C:/ProgramData/CHOCOLATEY/bin/Foo.EXE'' = Chocolatey \<and>
   identifyInstallMethod ''win32'' ''c:/programdata/chocolatey/bin/foo.exe'' = Chocolatey"
proof -
  have "identifyInstallMethod ''win32'' ''c:/programdata/chocolatey/bin/foo.exe'' = Chocolatey"
    by code_simp
  then show ?thesis
    using identifyInstallMethod_lower_case
      [of "''win32''" "''C:/ProgramData/CHOCOLATEY/bin/Foo.EXE''"]
    by (simp add: lower_chocolatey_path)
qed

subsection \<open>generateUninstallInstructions\<close>

text \<open>
  Claim C9. For every tool name, method and path, \<^verbatim>\<open>generateUninstallInstructions\<close> returns
  at least one instruction; so it does for the manual method with the empty path, and
  any method without a \<^verbatim>\<open>case\<close> of its own gets the instructions of the manual one.
\<close>

theorem generateUninstallInstructions_nonempty:
  "generateUninstallInstructions h toolName meth toolPath \<noteq> [] \<and>
   generateUninstallInstructions h toolName Manual [] \<noteq> [] \<and>
   generateUninstallInstructions h toolName (Other m) toolPath =
     generateUninstallInstructions h toolName Manual toolPath"
  by (cases meth) (simp_all add: generateUninstallInstructions_def)

theorem generateUninstallInstructions_nonempty_witness:
  "generateUninstallInstructions linux_host ''foo'' Manual [] =
     [''# Unable to determine uninstall method'',
      ''# Please check your system'' @ [CHR 0x27] @ ''s package manager''] \<and>
   generateUninstallInstructions linux_host ''foo'' Manual [] \<noteq> [] \<and>
   generateUninstallInstructions linux_host ''foo'' (Other ''scoop'') ''/opt/foo'' \<noteq> []"
  using generateUninstallInstructions_nonempty [of linux_host "''foo''" Manual "[]" "''scoop''"]
    generateUninstallInstructions_nonempty
      [of linux_host "''foo''" "Other ''scoop''" "''/opt/foo''" "''scoop''"]
  by (simp add: generateUninstallInstructions_def)

subsection \<open>isExecutable\<close>

text \<open>The three masks are single bits of the mode.\<close>

lemma and_64_bit: "(m AND (64 :: 32 word) \<noteq> 0) = bit m 6"
proof -
  have "(64 :: 32 word) = 2 ^ 6" by simp
  then show ?thesis by (simp only: and_exp_eq_0_iff_not_bit) simp
qed

lemma and_8_bit: "(m AND (8 :: 32 word) \<noteq> 0) = bit m 3"
proof -
  have "(8 :: 32 word) = 2 ^ 3" by simp
  then show ?thesis by (simp only: and_exp_eq_0_iff_not_bit) simp
qed

lemma and_1_bit: "(m AND (1 :: 32 word) \<noteq> 0) = bit m 0"
  by (simp add: and_one_eq bit_0 mod_2_eq_odd)

lemma isExecutable_Inr: "\<exists>b. isExecutable h fs p = Inr b"
  by (cases "isExecutable_try h fs p") (auto simp: isExecutable_def)

lemma isExecutable_stat_fails: "stat fs p = Inl e \<Longrightarrow> isExecutable h fs p = Inr False"
  by (simp add: isExecutable_def isExecutable_try_def)

lemma isExecutable_not_file:
  "stat fs p = Inr st \<Longrightarrow> \<not> isFile st \<Longrightarrow> isExecutable h fs p = Inr False"
  by (simp add: isExecutable_def isExecutable_try_def)

lemma isExecutable_windows:
  "stat fs p = Inr st \<Longrightarrow> isFile st \<Longrightarrow> isWindows h \<Longrightarrow>
   isExecutable h fs p =
     Inr (toLowerCase (path_extname h p) \<in> {''.exe'', ''.cmd'', ''.bat'', ''.com'', ''.ps1''})"
  by (simp add: isExecutable_def isExecutable_try_def executable_extensions_def Let_def)

lemma isExecutable_posix:
  "stat fs p = Inr st \<Longrightarrow> isFile st \<Longrightarrow> \<not> isWindows h \<Longrightarrow>
   isExecutable h fs p = Inr (bit (mode st) 6 \<or> bit (mode st) 3 \<or> bit (mode st) 0)"
  by (simp add: isExecutable_def isExecutable_try_def S_IXUSR_def S_IXGRP_def S_IXOTH_def
      and_64_bit and_8_bit and_1_bit Let_def)

lemma lower_txt: "toLowerCase ''.txt'' = ''.txt''"
  by code_simp

lemma isExecutable_txt:
  "isWindows h \<Longrightarrow> path_extname h p = ''.txt'' \<Longrightarrow> isExecutable h fs p = Inr False"
  by (cases "stat fs p")
     (simp_all add: isExecutable_def isExecutable_try_def executable_extensions_def lower_txt Let_def)

lemma isExecutable_no_bit:
  "\<not> isWindows h \<Longrightarrow> stat fs p = Inr st \<Longrightarrow>
   \<not> bit (mode st) 6 \<Longrightarrow> \<not> bit (mode st) 3 \<Longrightarrow> \<not> bit (mode st) 0 \<Longrightarrow>
   isExecutable h fs p = Inr False"
  by (cases "isFile st") (simp_all add: isExecutable_posix isExecutable_not_file)

text \<open>
  Claim C4. \<^verbatim>\<open>isExecutable\<close> never rejects. It resolves to false when \<^verbatim>\<open>stat\<close> fails, whatever
  the error, and when the entry is not a regular file. For a regular file it resolves, on
  Windows, to whether the lower-cased extension is one of \<^verbatim>\<open>.exe .cmd .bat .com .ps1\<close>, and,
  elsewhere, to whether one of the execute bits of owner (bit 6), group (bit 3) and others
  (bit 0) is set in the mode. So a file with extension \<^verbatim>\<open>.txt\<close> is never executable on
  Windows, and a file with none of the three bits is never executable elsewhere.
\<close>

theorem isExecutable_policy:
  "(\<forall>h fs p. \<exists>b. isExecutable h fs p = Inr b) \<and>
   (\<forall>h fs p e. stat fs p = Inl e \<longrightarrow> isExecutable h fs p = Inr False) \<and>
   (\<forall>h fs p st. stat fs p = Inr st \<and> \<not> isFile st \<longrightarrow> isExecutable h fs p = Inr False) \<and>
   (\<forall>h fs p st. stat fs p = Inr st \<and> isFile st \<and> isWindows h \<longrightarrow>
      isExecutable h fs p =
        Inr (toLowerCase (path_extname h p) \<in> {''.exe'', ''.cmd'', ''.bat'', ''.com'', ''.ps1''})) \<and>
   (\<forall>h fs p st. stat fs p = Inr st \<and> isFile st \<and> \<not> isWindows h \<longrightarrow>
      isExecutable h fs p = Inr (bit (mode st) 6 \<or> bit (mode st) 3 \<or> bit (mode st) 0)) \<and>
   (\<forall>h fs p. isWindows h \<and> path_extname h p = ''.txt'' \<longrightarrow> isExecutable h fs p = Inr False) \<and>
   (\<forall>h fs p st. \<not> isWindows h \<and> stat fs p = Inr st \<and>
      \<not> bit (mode st) 6 \<and> \<not> bit (mode st) 3 \<and> \<not> bit (mode st) 0 \<longrightarrow>
      isExecutable h fs p = Inr False)"
proof (intro conjI allI impI)
  show "\<exists>b. isExecutable h fs p = Inr b" for h fs p
    by (rule isExecutable_Inr)
  show "isExecutable h fs p = Inr False" if "stat fs p = Inl e" for h fs p e
    using that by (rule isExecutable_stat_fails)
  show "isExecutable h fs p = Inr False" if "stat fs p = Inr st \<and> \<not> isFile st" for h fs p st
    using that by (simp add: isExecutable_not_file)
  show "isExecutable h fs p =
      Inr (toLowerCase (path_extname h p) \<in> {''.exe'', ''.cmd'', ''.bat'', ''.com'', ''.ps1''})"
    if "stat fs p = Inr st \<and> isFile st \<and> isWindows h" for h fs p st
    using that by (simp add: isExecutable_windows)
  show "isExecutable h fs p = Inr (bit (mode st) 6 \<or> bit (mode st) 3 \<or> bit (mode st) 0)"
    if "stat fs p = Inr st \<and> isFile st \<and> \<not> isWindows h" for h fs p st
    using that by (simp add: isExecutable_posix)
  show "isExecutable h fs p = Inr False"
    if "isWindows h \<and> path_extname h p = ''.txt''" for h fs p
    using that by (simp add: isExecutable_txt)
  show "isExecutable h fs p = Inr False"
    if "\<not> isWindows h \<and> stat fs p = Inr st \<and>
        \<not> bit (mode st) 6 \<and> \<not> bit (mode st) 3 \<and> \<not> bit (mode st) 0" for h fs p st
    using that by (simp add: isExecutable_no_bit)
qed

text \<open>
  On the sample file systems: a broken link, a directory, \<^verbatim>\<open>run.CMD\<close> and \<^verbatim>\<open>tool.txt\<close> on
  Windows, and a file of mode 0755 and one of mode 0644 on Linux.
\<close>

theorem isExecutable_policy_witness:
  "stat posix_fs ''/usr/bin/dangling'' = Inl ENOENT \<and>
   isExecutable linux_host posix_fs ''/usr/bin/dangling'' = Inr False \<and>
   stat posix_fs ''/usr/bin/X11'' = Inr \<lparr>isFile = False, mode = 16877\<rparr> \<and>
   isExecutable linux_host posix_fs ''/usr/bin/X11'' = Inr False \<and>
   stat windows_fs ''C:/Tools/run.CMD'' = Inr \<lparr>isFile = True, mode = 33279\<rparr> \<and>
   isWindows windows_host \<and>
   isExecutable windows_host windows_fs ''C:/Tools/run.CMD'' = Inr True \<and>
   stat posix_fs ''/usr/bin/git'' = Inr \<lparr>isFile = True, mode = 33261\<rparr> \<and>
   \<not> isWindows linux_host \<and>
   isExecutable linux_host posix_fs ''/usr/bin/git'' = Inr True \<and>
   path_extname windows_host ''C:/Tools/tool.txt'' = ''.txt'' \<and>
   isExecutable windows_host windows_fs ''C:/Tools/tool.txt'' = Inr False \<and>
   stat posix_fs ''/usr/bin/notes.txt'' = Inr \<lparr>isFile = True, mode = 33188\<rparr> \<and>
   \<not> bit (33188 :: 32 word) 6 \<and> \<not> bit (33188 :: 32 word) 3 \<and> \<not> bit (33188 :: 32 word) 0 \<and>
   isExecutable linux_host posix_fs ''/usr/bin/notes.txt'' = Inr False"
proof -
  have s1: "stat posix_fs ''/usr/bin/dangling'' = Inl ENOENT"
    by (simp add: posix_fs_def)
  have s2: "stat posix_fs ''/usr/bin/X11'' = Inr \<lparr>isFile = False, mode = 16877\<rparr>"
    by (simp add: posix_fs_def)
  have s3: "stat windows_fs ''C:/Tools/run.CMD'' = Inr \<lparr>isFile = True, mode = 33279\<rparr>"
    by (simp add: windows_fs_def)
  have s4: "stat posix_fs ''/usr/bin/git'' = Inr \<lparr>isFile = True, mode = 33261\<rparr>"
    by (simp add: posix_fs_def)
  have s5: "stat posix_fs ''/usr/bin/notes.txt'' = Inr \<lparr>isFile = True, mode = 33188\<rparr>"
    by (simp add: posix_fs_def)
  have w: "isWindows windows_host" by (simp add: windows_host_def)
  have l: "\<not> isWindows linux_host" by (simp add: linux_host_def)
  have ext_cmd: "toLowerCase (path_extname windows_host ''C:/Tools/run.CMD'') = ''.cmd''"
    by code_simp
  have ext_txt: "path_extname windows_host ''C:/Tools/tool.txt'' = ''.txt''"
    by code_simp
  have b755: "bit (33261 :: 32 word) 6" by simp
  have b644: "\<not> bit (33188 :: 32 word) 6 \<and> \<not> bit (33188 :: 32 word) 3 \<and> \<not> bit (33188 :: 32 word) 0"
    by simp
  note stat_fails = isExecutable_policy [THEN conjunct2, THEN conjunct1, rule_format]
  note not_file =
    isExecutable_policy [THEN conjunct2, THEN conjunct2, THEN conjunct1, rule_format]
  note windows =
    isExecutable_policy [THEN conjunct2, THEN conjunct2, THEN conjunct2, THEN conjunct1,
      rule_format]
  note posix =
    isExecutable_policy [THEN conjunct2, THEN conjunct2, THEN conjunct2, THEN conjunct2,
      THEN conjunct1, rule_format]
  note dot_txt =
    isExecutable_policy [THEN conjunct2, THEN conjunct2, THEN conjunct2, THEN conjunct2,
      THEN conjunct2, THEN conjunct1, rule_format]
  note no_bit =
    isExecutable_policy [THEN conjunct2, THEN conjunct2, THEN conjunct2, THEN conjunct2,
      THEN conjunct2, THEN conjunct2, rule_format]
  have c1: "isExecutable linux_host posix_fs ''/usr/bin/dangling'' = Inr False"
    using stat_fails [of posix_fs "''/usr/bin/dangling''" ENOENT linux_host] s1 by simp
  have c2: "isExecutable linux_host posix_fs ''/usr/bin/X11'' = Inr False"
    using not_file [of posix_fs "''/usr/bin/X11''" "\<lparr>isFile = False, mode = 16877\<rparr>" linux_host] s2
    by simp
  have c3: "isExecutable windows_host windows_fs ''C:/Tools/run.CMD'' = Inr True"
    using windows [of windows_fs "''C:/Tools/run.CMD''" "\<lparr>isFile = True, mode = 33279\<rparr>"
        windows_host] s3 w
    by (simp add: ext_cmd)
  have c4: "isExecutable linux_host posix_fs ''/usr/bin/git'' = Inr True"
    using posix [of posix_fs "''/usr/bin/git''" "\<lparr>isFile = True, mode = 33261\<rparr>" linux_host]
      s4 l b755
    by simp
  have c5: "isExecutable windows_host windows_fs ''C:/Tools/tool.txt'' = Inr False"
    using dot_txt [of windows_host "''C:/Tools/tool.txt''" windows_fs] w ext_txt by simp
  have c6: "isExecutable linux_host posix_fs ''/usr/bin/notes.txt'' = Inr False"
    using no_bit [of linux_host posix_fs "''/usr/bin/notes.txt''"
        "\<lparr>isFile = True, mode = 33188\<rparr>"] l s5 b644
    by simp
  from s1 s2 s3 s4 s5 w l ext_txt b644 c1 c2 c3 c4 c5 c6 show ?thesis by simp
qed

subsection \<open>getVersionOutput\<close>

lemma dropWhile_all: "(\<forall>x\<in>set (dropWhile P xs). P x) \<longleftrightarrow> (\<forall>x\<in>set xs. P x)"
proof
  assume a: "\<forall>x\<in>set (dropWhile P xs). P x"
  have "dropWhile P xs = []"
  proof (rule ccontr)
    assume ne: "dropWhile P xs \<noteq> []"
    then have "\<not> P (hd (dropWhile P xs))" by (rule hd_dropWhile)
    moreover from ne have "hd (dropWhile P xs) \<in> set (dropWhile P xs)" by simp
    ultimately show False using a by blast
  qed
  then show "\<forall>x\<in>set xs. P x" by simp
next
  assume "\<forall>x\<in>set xs. P x"
  then show "\<forall>x\<in>set (dropWhile P xs). P x"
    using set_dropWhileD by fastforce
qed

text \<open>Trimming leaves nothing exactly when the string is white space throughout.\<close>

lemma trim_Nil_iff: "trim s = [] \<longleftrightarrow> (\<forall>c\<in>set s. is_space_unit c)"
proof -
  have "trim s = [] \<longleftrightarrow> (\<forall>c\<in>set (rev (dropWhile is_space_unit s)). is_space_unit c)"
    by (simp add: trim_def)
  also have "\<dots> \<longleftrightarrow> (\<forall>c\<in>set (dropWhile is_space_unit s). is_space_unit c)"
    by simp
  also have "\<dots> \<longleftrightarrow> (\<forall>c\<in>set s. is_space_unit c)"
    by (rule dropWhile_all)
  finally show ?thesis .
qed

lemma blank_iff:
  "blank a \<longleftrightarrow> a = None \<or> (\<exists>s. a = Some s \<and> (\<forall>c\<in>set s. is_space_unit c))"
  by (cases a) (simp_all add: blank_def list_all_iff)

lemma truthy_trimmed_blank: "truthy_trimmed a = (if blank a then None else a)"
  by (cases a) (auto simp: truthy_trimmed_def blank_def trim_Nil_iff list_all_iff)

text \<open>
  Claim C8, as stated, fails: a stdout of one blank is not empty, and the text handed to the
  parser is the stderr string.
\<close>

theorem getVersionOutput_blank_counterexample:
  "stdout blank_stdout = Some '' '' \<and> '' '' \<noteq> [] \<and>
   spec_getVersionOutput blank_stdout = '' '' \<and>
   getVersionOutput blank_stdout = ''v1.2.3'' \<and>
   getVersionOutput blank_stdout \<noteq> spec_getVersionOutput blank_stdout"
  by code_simp

text \<open>
  Claim C8, amended. The text handed to the version parser is the stdout string whenever
  stdout holds a code unit that is not white space, otherwise the stderr string whenever
  stderr holds one, otherwise the empty string.
\<close>

theorem getVersionOutput_prefers_text:
  "(\<not> blank (stdout r1) \<longrightarrow> Some (getVersionOutput r1) = stdout r1) \<and>
   (blank (stdout r2) \<and> \<not> blank (stderr r2) \<longrightarrow> Some (getVersionOutput r2) = stderr r2) \<and>
   (blank (stdout r3) \<and> blank (stderr r3) \<longrightarrow> getVersionOutput r3 = [])"
proof -
  have "\<not> blank (stdout r1) \<longrightarrow> Some (getVersionOutput r1) = stdout r1"
    by (cases "stdout r1") (simp_all add: getVersionOutput_def truthy_trimmed_blank blank_def)
  moreover have "blank (stdout r2) \<and> \<not> blank (stderr r2)
      \<longrightarrow> Some (getVersionOutput r2) = stderr r2"
    by (cases "stderr r2") (simp_all add: getVersionOutput_def truthy_trimmed_blank blank_def)
  moreover have "blank (stdout r3) \<and> blank (stderr r3) \<longrightarrow> getVersionOutput r3 = []"
    by (simp add: getVersionOutput_def truthy_trimmed_blank)
  ultimately show ?thesis by blast
qed

theorem getVersionOutput_prefers_text_witness:
  "\<not> blank (stdout \<lparr>success = True, stdout = Some ''1.2.3'', stderr = None\<rparr>) \<and>
   getVersionOutput \<lparr>success = True, stdout = Some ''1.2.3'', stderr = None\<rparr> = ''1.2.3'' \<and>
   blank (stdout blank_stdout) \<and> \<not> blank (stderr blank_stdout) \<and>
   getVersionOutput blank_stdout = ''v1.2.3'' \<and>
   blank (stdout \<lparr>success = False, stdout = None, stderr = Some []\<rparr>) \<and>
   blank (stderr \<lparr>success = False, stdout = None, stderr = Some []\<rparr>) \<and>
   getVersionOutput \<lparr>success = False, stdout = None, stderr = Some []\<rparr> = []"
proof -
  have h1: "\<not> blank (stdout \<lparr>success = True, stdout = Some ''1.2.3'', stderr = None\<rparr>)"
    by code_simp
  have h2: "blank (stdout blank_stdout) \<and> \<not> blank (stderr blank_stdout)"
    by code_simp
  have h3: "blank (stdout \<lparr>success = False, stdout = None, stderr = Some []\<rparr>) \<and>
      blank (stderr \<lparr>success = False, stdout = None, stderr = Some []\<rparr>)"
    by code_simp
  note inst = getVersionOutput_prefers_text
      [of "\<lparr>success = True, stdout = Some ''1.2.3'', stderr = None\<rparr>" blank_stdout
          "\<lparr>success = False, stdout = None, stderr = Some []\<rparr>"]
  from inst h1
  have "Some (getVersionOutput \<lparr>success = True, stdout = Some ''1.2.3'', stderr = None\<rparr>) =
      stdout \<lparr>success = True, stdout = Some ''1.2.3'', stderr = None\<rparr>"
    by blast
  then have c1: "getVersionOutput \<lparr>success = True, stdout = Some ''1.2.3'', stderr = None\<rparr> =
      ''1.2.3''"
    by simp
  from inst h2 have "Some (getVersionOutput blank_stdout) = stderr blank_stdout"
    by blast
  then have c2: "getVersionOutput blank_stdout = ''v1.2.3''"
    by (simp add: blank_stdout_def)
  from inst h3
  have c3: "getVersionOutput \<lparr>success = False, stdout = None, stderr = Some []\<rparr> = []"
    by blast
  from h1 h2 h3 c1 c2 c3 show ?thesis by simp
qed

subsection \<open>getExtendedToolInfo\<close>

text \<open>
  Claim C2. The record returned by \<^verbatim>\<open>getExtendedToolInfo\<close> has \<^verbatim>\<open>isInstalled\<close> true if and only
  if the lookup returned at least one path and the probe \<^verbatim>\<open><toolName> --version\<close> reported
  success; so a tool with a path and a failed probe is not installed.
\<close>

theorem getExtendedToolInfo_isInstalled:
  "(isInstalled (getExtendedToolInfo h co toolName) \<longleftrightarrow>
      getAllToolPaths co toolName \<noteq> [] \<and> success (executeSafe co (toolName @ '' --version''))) \<and>
   (getAllToolPaths co toolName \<noteq> [] \<and> \<not> success (executeSafe co (toolName @ '' --version''))
      \<longrightarrow> \<not> isInstalled (getExtendedToolInfo h co toolName))"
  by (simp add: getExtendedToolInfo_def Let_def)

theorem getExtendedToolInfo_isInstalled_witness:
  "getAllToolPaths broken_install ''foo'' \<noteq> [] \<and>
   \<not> success (executeSafe broken_install (''foo'' @ '' --version'')) \<and>
   \<not> isInstalled (getExtendedToolInfo linux_host broken_install ''foo'')"
proof -
  have hyp: "getAllToolPaths broken_install ''foo'' \<noteq> [] \<and>
      \<not> success (executeSafe broken_install (''foo'' @ '' --version''))"
    by (simp add: broken_install_def)
  with getExtendedToolInfo_isInstalled [of linux_host broken_install "''foo''"]
  show ?thesis by blast
qed

text \<open>
  Claim C5, as stated, fails: \<^verbatim>\<open>allPaths\<close> is the result of \<^verbatim>\<open>getAllToolPaths\<close> as it comes,
  and a lookup that reports a path twice yields a record whose \<^verbatim>\<open>allPaths\<close> holds it twice.
\<close>

theorem allPaths_duplicate_counterexample:
  "getAllToolPaths repeated_lookup ''foo'' = [''/usr/bin/foo'', ''/usr/bin/foo''] \<and>
   \<not> distinct (allPaths (getExtendedToolInfo linux_host repeated_lookup ''foo''))"
  by (simp add: getExtendedToolInfo_def Let_def repeated_lookup_def)

text \<open>
  Claim C5, amended. The \<^verbatim>\<open>allPaths\<close> field of the record returned by
  \<^verbatim>\<open>getExtendedToolInfo\<close> is the list that \<^verbatim>\<open>getAllToolPaths\<close> returned, in its order; it has
  no duplicate exactly when that list has none.
\<close>

theorem allPaths_is_lookup_result:
  "allPaths (getExtendedToolInfo h co toolName) = getAllToolPaths co toolName \<and>
   (distinct (allPaths (getExtendedToolInfo h co toolName)) \<longleftrightarrow>
      distinct (getAllToolPaths co toolName))"
  by (simp add: getExtendedToolInfo_def Let_def)

theorem allPaths_is_lookup_result_witness:
  "allPaths (getExtendedToolInfo linux_host broken_install ''foo'') = [''/usr/local/bin/foo''] \<and>
   distinct (allPaths (getExtendedToolInfo linux_host broken_install ''foo''))"
  using allPaths_is_lookup_result [of linux_host broken_install "''foo''"]
  by (simp add: broken_install_def)

subsection \<open>parsePath\<close>

text \<open>
  Splitting: joining the segments with the separator gives the string back, and no
  segment holds the separator.
\<close>

lemma split_str_nonempty: "split_str sep s \<noteq> []"
  by (induction s) (auto split: list.split)

lemma join_split_str: "join_str sep (split_str sep s) = s"
proof (induction s)
  case Nil
  then show ?case by simp
next
  case (Cons c cs)
  obtain seg segs where eq: "split_str sep cs = seg # segs"
    using split_str_nonempty [of sep cs] by (cases "split_str sep cs") auto
  with Cons show ?case
    by (cases segs) auto
qed

lemma split_str_no_separator: "seg \<in> set (split_str sep s) \<Longrightarrow> sep \<notin> set seg"
proof (induction s arbitrary: seg)
  case Nil
  then show ?case by simp
next
  case (Cons c cs)
  then show ?case
    by (cases "split_str sep cs") (auto split: if_splits)
qed

lemma length_split_str: "length (split_str sep s) = Suc (count_list s sep)"
  by (induction s) (auto split: list.split simp: split_str_nonempty)

text \<open>
  Trimming: the string is white space, the trimmed string, white space; and a trimmed
  string that is not empty neither starts nor ends with white space.
\<close>

lemma trim_decomposition:
  "\<exists>l r. s = l @ trim s @ r \<and> (\<forall>c\<in>set l. is_space_unit c) \<and> (\<forall>c\<in>set r. is_space_unit c)"
proof -
  let ?P = is_space_unit
  let ?t = "dropWhile ?P s"
  have a: "s = takeWhile ?P s @ ?t" by simp
  have b: "rev ?t = takeWhile ?P (rev ?t) @ dropWhile ?P (rev ?t)" by simp
  have "?t = rev (dropWhile ?P (rev ?t)) @ rev (takeWhile ?P (rev ?t))"
    by (metis b rev_append rev_rev_ident)
  then have c: "?t = trim s @ rev (takeWhile ?P (rev ?t))"
    by (simp add: trim_def)
  have "s = takeWhile ?P s @ trim s @ rev (takeWhile ?P (rev ?t))"
    using a c by metis
  moreover have "\<forall>c\<in>set (takeWhile ?P s). ?P c"
    by (auto dest: set_takeWhileD)
  moreover have "\<forall>c\<in>set (rev (takeWhile ?P (rev ?t))). ?P c"
    by (auto dest: set_takeWhileD)
  ultimately show ?thesis by blast
qed

lemma trim_ends:
  assumes "trim s \<noteq> []"
  shows "\<not> is_space_unit (hd (trim s)) \<and> \<not> is_space_unit (last (trim s))"
proof -
  let ?P = is_space_unit
  let ?t = "dropWhile ?P s"
  let ?u = "dropWhile ?P (rev ?t)"
  from assms have u: "?u \<noteq> []" by (simp add: trim_def)
  then have "\<not> ?P (hd ?u)" by (rule hd_dropWhile)
  with u have last: "\<not> ?P (last (trim s))"
    by (simp add: trim_def last_rev)
  have t: "?t \<noteq> []"
  proof
    assume "?t = []"
    then have "?u = []" by (simp only: rev.simps dropWhile.simps)
    with u show False by simp
  qed
  then have hd_t: "\<not> ?P (hd ?t)" by (rule hd_dropWhile)
  obtain r where "?t = trim s @ r"
    by (metis rev_append rev_rev_ident takeWhile_dropWhile_id trim_def)
  with assms have "hd ?t = hd (trim s)" by simp
  with hd_t last show ?thesis by simp
qed

lemma pathEnv_PATH: "env_PATH h = Some v \<Longrightarrow> v \<noteq> [] \<Longrightarrow> pathEnv h = v"
  by (simp add: pathEnv_def or_else_def)

lemma pathEnv_Path:
  "env_PATH h = None \<or> env_PATH h = Some [] \<Longrightarrow> env_Path h = Some v \<Longrightarrow> v \<noteq> [] \<Longrightarrow>
   pathEnv h = v"
  by (auto simp: pathEnv_def or_else_def)

lemma pathEnv_unset:
  "env_PATH h = None \<or> env_PATH h = Some [] \<Longrightarrow> env_Path h = None \<or> env_Path h = Some [] \<Longrightarrow>
   pathEnv h = []"
  by (auto simp: pathEnv_def or_else_def)

lemma trim_Nil: "trim [] = []"
  by (simp add: trim_def)

lemma parsePath_eq:
  "parsePath h =
     map (normalizePath h)
       (filter (\<lambda>seg. seg \<noteq> [])
          (map trim (split_str (if isWindows h then CHR '';'' else CHR '':'') (pathEnv h))))"
  by (simp add: parsePath_def getPathSeparator_def)

lemma parsePath_unset:
  assumes "env_PATH h = None \<or> env_PATH h = Some []"
    and "env_Path h = None \<or> env_Path h = Some []"
  shows "parsePath h = []"
  using pathEnv_unset [OF assms] by (simp add: parsePath_eq trim_Nil)

lemma parsePath_order:
  "\<exists>segs. subseq segs (split_str (getPathSeparator h) (pathEnv h)) \<and>
      parsePath h = map (\<lambda>seg. normalizePath h (trim seg)) segs"
proof -
  let ?all = "split_str (getPathSeparator h) (pathEnv h)"
  let ?segs = "filter (\<lambda>seg. trim seg \<noteq> []) ?all"
  have "parsePath h = map (\<lambda>seg. normalizePath h (trim seg)) ?segs"
    by (simp add: parsePath_def filter_map comp_def)
  moreover have "subseq ?segs ?all" by simp
  ultimately show ?thesis by blast
qed

text \<open>
  Claim C6. \<^verbatim>\<open>parsePath\<close> has no operation that can throw (\<^verbatim>\<open>normalizePath\<close> being a function
  that returns for every string), so the model is a total function of the host. When the
  search-path variable is absent or empty under both spellings the result is empty.
  Otherwise the value (\<^verbatim>\<open>PATH\<close> when set and not empty, else \<^verbatim>\<open>Path\<close>) is split at \<^verbatim>\<open>;\<close> on
  Windows and at \<^verbatim>\<open>:\<close> elsewhere, every segment is trimmed, the segments that are then
  empty are dropped, and the others are normalized; the result lists the normalized
  trimmed forms of a subsequence of the segments, so their order is kept.
\<close>

theorem parsePath_segments:
  "((env_PATH h0 = None \<or> env_PATH h0 = Some []) \<and> (env_Path h0 = None \<or> env_Path h0 = Some [])
      \<longrightarrow> parsePath h0 = []) \<and>
   (env_PATH h1 = Some v1 \<and> v1 \<noteq> [] \<longrightarrow> pathEnv h1 = v1) \<and>
   ((env_PATH h2 = None \<or> env_PATH h2 = Some []) \<and> env_Path h2 = Some v2 \<and> v2 \<noteq> []
      \<longrightarrow> pathEnv h2 = v2) \<and>
   parsePath h =
     map (normalizePath h)
       (filter (\<lambda>seg. seg \<noteq> [])
          (map trim (split_str (if isWindows h then CHR '';'' else CHR '':'') (pathEnv h)))) \<and>
   (\<exists>segs. subseq segs (split_str (getPathSeparator h) (pathEnv h)) \<and>
      parsePath h = map (\<lambda>seg. normalizePath h (trim seg)) segs)"
  using parsePath_unset [of h0] pathEnv_PATH [of h1 v1] pathEnv_Path [of h2 v2]
    parsePath_eq [of h] parsePath_order [of h]
  by blast

theorem parsePath_segments_witness:
  "env_PATH bare_host = None \<and> env_Path bare_host = Some [] \<and> parsePath bare_host = [] \<and>
   env_PATH linux_host = Some ''/usr/local/bin: /usr/bin ::/opt/missing:/root/secret:/usr/bin:/opt/tools'' \<and>
   pathEnv linux_host = ''/usr/local/bin: /usr/bin ::/opt/missing:/root/secret:/usr/bin:/opt/tools'' \<and>
   env_PATH windows_host = None \<and> env_Path windows_host = Some ''C:/Tools;C:/Windows'' \<and>
   pathEnv windows_host = ''C:/Tools;C:/Windows'' \<and>
   parsePath linux_host =
     [''/usr/local/bin'', ''/usr/bin'', ''/opt/missing'', ''/root/secret'', ''/usr/bin'', ''/opt/tools''] \<and>
   parsePath windows_host = [''C:/Tools'', ''C:/Windows'']"
proof -
  have e0: "env_PATH bare_host = None \<and> env_Path bare_host = Some []"
    by (simp add: bare_host_def)
  have e1: "env_PATH linux_host =
      Some ''/usr/local/bin: /usr/bin ::/opt/missing:/root/secret:/usr/bin:/opt/tools''"
    by (simp add: linux_host_def)
  have e2: "env_PATH windows_host = None \<and> env_Path windows_host = Some ''C:/Tools;C:/Windows''"
    by (simp add: windows_host_def)
  note inst = parsePath_segments
      [of bare_host linux_host
          "''/usr/local/bin: /usr/bin ::/opt/missing:/root/secret:/usr/bin:/opt/tools''"
          windows_host "''C:/Tools;C:/Windows''" linux_host]
  from inst e0 have c0: "parsePath bare_host = []" by blast
  from inst e1 have c1: "pathEnv linux_host =
      ''/usr/local/bin: /usr/bin ::/opt/missing:/root/secret:/usr/bin:/opt/tools''"
    by simp
  from inst e2 have c2: "pathEnv windows_host = ''C:/Tools;C:/Windows''"
    by simp
  have c3: "parsePath linux_host =
     [''/usr/local/bin'', ''/usr/bin'', ''/opt/missing'', ''/root/secret'', ''/usr/bin'', ''/opt/tools'']"
    by code_simp
  have c4: "parsePath windows_host = [''C:/Tools'', ''C:/Windows'']"
    by code_simp
  from e0 e1 e2 c0 c1 c2 c3 c4 show ?thesis by simp
qed

subsection \<open>scanDirectory\<close>

lemma scanDirectory_Inr: "scanDirectory h fs dir = Inr (scan_list h fs dir)"
  by (simp add: scanDirectory_def scan_list_def split: sum.split)

lemma scanDirectory_access_fails: "access fs dir = Inl e \<Longrightarrow> scanDirectory h fs dir = Inr []"
  by (simp add: scanDirectory_def scanDirectory_try_def)

lemma scanDirectory_readdir_fails: "readdir fs dir = Inl e \<Longrightarrow> scanDirectory h fs dir = Inr []"
  by (simp add: scanDirectory_def scanDirectory_try_def split: sum.split)

lemma promise_all_Inr: "promise_all (map Inr xs) = Inr xs"
  by (induction xs) simp_all

lemma check_file_Inr:
  "check_file h fs dir file =
     Inr (file, path_join h dir file, isExecutable h fs (path_join h dir file) = Inr True)"
proof -
  obtain b where "isExecutable h fs (path_join h dir file) = Inr b"
    using isExecutable_Inr by blast
  then show ?thesis by (simp add: check_file_def)
qed

lemma promise_all_checks:
  "promise_all (map (check_file h fs dir) files) =
     Inr (map (\<lambda>file. (file, path_join h dir file,
                        isExecutable h fs (path_join h dir file) = Inr True)) files)"
proof -
  have "map (check_file h fs dir) files =
      map Inr (map (\<lambda>file. (file, path_join h dir file,
                        isExecutable h fs (path_join h dir file) = Inr True)) files)"
    by (simp add: check_file_Inr)
  then show ?thesis by (simp only: promise_all_Inr)
qed

lemma foldl_push_executable:
  "foldl (push_executable h dir) acc (map (\<lambda>file. (file, path_join h dir file, ok file)) files) =
     acc @ map (\<lambda>file. \<lparr>name = toLowerCase (executable_name h file),
                         path = normalizePath h (path_join h dir file),
                         directory = normalizePath h dir\<rparr>) (filter ok files)"
  by (induction files arbitrary: acc) (simp_all add: push_executable_def)

text \<open>
  A directory that can be listed yields one record for each executable entry, in listing
  order.
\<close>

lemma scanDirectory_listing:
  assumes "access fs dir = Inr u" and "readdir fs dir = Inr files"
  shows "scanDirectory h fs dir =
     Inr (map (\<lambda>file. \<lparr>name = toLowerCase (executable_name h file),
                        path = normalizePath h (path_join h dir file),
                        directory = normalizePath h dir\<rparr>)
            (filter (\<lambda>file. isExecutable h fs (path_join h dir file) = Inr True) files))"
  using assms
  by (simp add: scanDirectory_def scanDirectory_try_def promise_all_checks foldl_push_executable)

lemma promise_all_scans:
  "promise_all (map (scanDirectory h fs) dirs) = Inr (map (scan_list h fs) dirs)"
proof -
  have "map (scanDirectory h fs) dirs = map Inr (map (scan_list h fs) dirs)"
    by (simp add: scanDirectory_Inr)
  then show ?thesis by (simp only: promise_all_Inr)
qed

subsection \<open>scanAllPathDirectories\<close>

text \<open>The two loops compute \<open>first_occurrences\<close> of the scanned records.\<close>

lemma foldl_add_exec:
  "foldl add_exec (seen, acc) xs =
     (seen \<union> exec_key ` set xs, acc @ first_occurrences seen xs)"
  by (induction xs arbitrary: seen acc) (auto simp: add_exec_def Let_def)

lemma foldl_foldl_concat:
  "foldl (\<lambda>st xs. foldl f st xs) st xss = foldl f st (concat xss)"
  by (induction xss arbitrary: st) simp_all

lemma merge_results_eq: "merge_results results = first_occurrences {} (concat results)"
  by (simp add: merge_results_def foldl_foldl_concat foldl_add_exec)

lemma scanAllPathDirectories_eq:
  "scanAllPathDirectories h fs = Inr (first_occurrences {} (scanned_records h fs))"
  by (simp add: scanAllPathDirectories_def promise_all_scans merge_results_eq scanned_records_def)

lemma keys_first_occurrences:
  "exec_key ` set (first_occurrences seen xs) = exec_key ` set xs - seen"
  by (induction xs arbitrary: seen) auto

lemma distinct_first_occurrences: "distinct (map exec_key (first_occurrences seen xs))"
proof (induction xs arbitrary: seen)
  case Nil
  then show ?case by simp
next
  case (Cons x xs)
  have "exec_key x \<notin> exec_key ` set (first_occurrences (insert (exec_key x) seen) xs)"
    by (simp add: keys_first_occurrences)
  with Cons show ?case by simp
qed

lemma subseq_first_occurrences: "subseq (first_occurrences seen xs) xs"
  by (induction xs arbitrary: seen) auto

lemma find_first_occurrences:
  "e \<in> set (first_occurrences seen xs) \<Longrightarrow> find (\<lambda>x. exec_key x = exec_key e) xs = Some e"
proof (induction xs arbitrary: seen)
  case Nil
  then show ?case by simp
next
  case (Cons x xs)
  show ?case
  proof (cases "exec_key x \<in> seen")
    case True
    with Cons.prems have e: "e \<in> set (first_occurrences seen xs)" by simp
    then have "exec_key e \<in> exec_key ` set xs - seen"
      using keys_first_occurrences [of seen xs] by blast
    with True have "exec_key x \<noteq> exec_key e" by auto
    with Cons.IH [OF e] show ?thesis by simp
  next
    case False
    show ?thesis
    proof (cases "e = x")
      case True
      then show ?thesis by simp
    next
      case ne: False
      with False Cons.prems have e: "e \<in> set (first_occurrences (insert (exec_key x) seen) xs)"
        by simp
      then have "exec_key e \<in> exec_key ` set xs - insert (exec_key x) seen"
        using keys_first_occurrences [of "insert (exec_key x) seen" xs] by blast
      then have "exec_key x \<noteq> exec_key e" by auto
      with Cons.IH [OF e] show ?thesis by simp
    qed
  qed
qed

lemma exec_key_same_name:
  "ExecutableInfo.name a = ExecutableInfo.name b \<Longrightarrow>
   exec_key a = exec_key b \<longleftrightarrow> ExecutableInfo.path a = ExecutableInfo.path b"
  by (simp add: exec_key_def)

lemma distinct_name_path:
  "distinct (map exec_key xs) \<Longrightarrow>
   distinct (map (\<lambda>e. (ExecutableInfo.name e, ExecutableInfo.path e)) xs)"
proof (induction xs)
  case Nil
  then show ?case by simp
next
  case (Cons x xs)
  then show ?case by (auto simp: exec_key_def)
qed

subsection \<open>Failures stay inside scanDirectory\<close>

text \<open>
  The key is the string \<^verbatim>\<open>name:path\<close>. Two records whose names hold no colon have the same
  key only when they have the same name and the same path.
\<close>

lemma exec_key_no_colon:
  assumes "CHR '':'' \<notin> set (ExecutableInfo.name x)"
    and "CHR '':'' \<notin> set (ExecutableInfo.name y)"
    and "exec_key x = exec_key y"
  shows "ExecutableInfo.name x = ExecutableInfo.name y \<and>
    ExecutableInfo.path x = ExecutableInfo.path y"
proof -
  have tw: "takeWhile (\<lambda>c. c \<noteq> CHR '':'') (exec_key z) = ExecutableInfo.name z"
    if "CHR '':'' \<notin> set (ExecutableInfo.name z)" for z
  proof -
    have "takeWhile (\<lambda>c. c \<noteq> CHR '':'') (ExecutableInfo.name z @ CHR '':'' # ExecutableInfo.path z) =
        takeWhile (\<lambda>c. c \<noteq> CHR '':'') (ExecutableInfo.name z)"
      by (rule takeWhile_tail) simp
    also have "\<dots> = ExecutableInfo.name z"
      using that by (auto simp: takeWhile_eq_all_conv)
    finally show ?thesis by (simp add: exec_key_def)
  qed
  from assms(3) have "takeWhile (\<lambda>c. c \<noteq> CHR '':'') (exec_key x) =
      takeWhile (\<lambda>c. c \<noteq> CHR '':'') (exec_key y)"
    by simp
  with tw [OF assms(1)] tw [OF assms(2)]
  have n: "ExecutableInfo.name x = ExecutableInfo.name y" by simp
  with assms(3) have "ExecutableInfo.path x = ExecutableInfo.path y"
    by (simp add: exec_key_def)
  with n show ?thesis by simp
qed

text \<open>
  Claim C7. \<^verbatim>\<open>scanDirectory\<close> never rejects: it resolves to a list for every directory, and
  to the empty list when \<^verbatim>\<open>access\<close> fails (the directory does not exist or is out of reach)
  or \<^verbatim>\<open>readdir\<close> fails. So \<^verbatim>\<open>scanAllPathDirectories\<close> resolves as well, and every record
  found in any directory of the search path has its key in the result, whichever other
  directories failed.
\<close>

theorem scanDirectory_never_raises:
  "(\<exists>executables. scanDirectory h fs dir = Inr executables) \<and>
   (access fs1 dir1 = Inl e1 \<longrightarrow> scanDirectory h1 fs1 dir1 = Inr []) \<and>
   (readdir fs2 dir2 = Inl e2 \<longrightarrow> scanDirectory h2 fs2 dir2 = Inr []) \<and>
   (\<exists>res. scanAllPathDirectories h fs = Inr res \<and>
      (\<forall>d\<in>set (parsePath h). \<forall>xs. scanDirectory h fs d = Inr xs \<longrightarrow>
         (\<forall>x\<in>set xs. \<exists>y\<in>set res. exec_key y = exec_key x)))"
proof -
  have a: "\<exists>executables. scanDirectory h fs dir = Inr executables"
    by (simp add: scanDirectory_Inr)
  let ?res = "first_occurrences {} (scanned_records h fs)"
  have "\<exists>y\<in>set ?res. exec_key y = exec_key x"
    if "d \<in> set (parsePath h)" "scanDirectory h fs d = Inr xs" "x \<in> set xs" for d xs x
  proof -
    from that(2) have "xs = scan_list h fs d" by (simp add: scanDirectory_Inr)
    with that(1,3) have "x \<in> set (scanned_records h fs)"
      by (auto simp: scanned_records_def)
    then have "exec_key x \<in> exec_key ` set ?res"
      by (simp add: keys_first_occurrences)
    then show ?thesis by force
  qed
  then have b: "\<exists>res. scanAllPathDirectories h fs = Inr res \<and>
      (\<forall>d\<in>set (parsePath h). \<forall>xs. scanDirectory h fs d = Inr xs \<longrightarrow>
         (\<forall>x\<in>set xs. \<exists>y\<in>set res. exec_key y = exec_key x))"
    by (simp add: scanAllPathDirectories_eq)
  from a b scanDirectory_access_fails [of fs1 dir1 e1 h1]
    scanDirectory_readdir_fails [of fs2 dir2 e2 h2]
  show ?thesis by blast
qed

theorem scanDirectory_never_raises_witness:
  "access posix_fs ''/opt/missing'' = Inl ENOENT \<and>
   scanDirectory linux_host posix_fs ''/opt/missing'' = Inr [] \<and>
   readdir posix_fs ''/root/secret'' = Inl EACCES \<and>
   scanDirectory linux_host posix_fs ''/root/secret'' = Inr [] \<and>
   parsePath linux_host =
     [''/usr/local/bin'', ''/usr/bin'', ''/opt/missing'', ''/root/secret'', ''/usr/bin'',
      ''/opt/tools''] \<and>
   scanDirectory linux_host posix_fs ''/opt/tools'' =
     Inr [\<lparr>name = ''janitor'', path = ''/opt/tools/Janitor'', directory = ''/opt/tools''\<rparr>] \<and>
   scanAllPathDirectories linux_host posix_fs =
     Inr [\<lparr>name = ''git'', path = ''/usr/local/bin/git'', directory = ''/usr/local/bin''\<rparr>,
          \<lparr>name = ''git'', path = ''/usr/bin/git'', directory = ''/usr/bin''\<rparr>,
          \<lparr>name = ''janitor'', path = ''/opt/tools/Janitor'', directory = ''/opt/tools''\<rparr>]"
proof -
  have a: "access posix_fs ''/opt/missing'' = Inl ENOENT"
    by (simp add: posix_fs_def)
  have r: "readdir posix_fs ''/root/secret'' = Inl EACCES"
    by (simp add: posix_fs_def)
  note inst = scanDirectory_never_raises
      [of linux_host posix_fs "''/opt/tools''" posix_fs "''/opt/missing''" ENOENT linux_host
          posix_fs "''/root/secret''" EACCES linux_host]
  from inst a have c1: "scanDirectory linux_host posix_fs ''/opt/missing'' = Inr []"
    by blast
  from inst r have c2: "scanDirectory linux_host posix_fs ''/root/secret'' = Inr []"
    by blast
  have c3: "parsePath linux_host =
     [''/usr/local/bin'', ''/usr/bin'', ''/opt/missing'', ''/root/secret'', ''/usr/bin'',
      ''/opt/tools'']"
    by code_simp
  have c4: "scanDirectory linux_host posix_fs ''/opt/tools'' =
     Inr [\<lparr>name = ''janitor'', path = ''/opt/tools/Janitor'', directory = ''/opt/tools''\<rparr>]"
    by code_simp
  have c5: "scanAllPathDirectories linux_host posix_fs =
     Inr [\<lparr>name = ''git'', path = ''/usr/local/bin/git'', directory = ''/usr/local/bin''\<rparr>,
          \<lparr>name = ''git'', path = ''/usr/bin/git'', directory = ''/usr/bin''\<rparr>,
          \<lparr>name = ''janitor'', path = ''/opt/tools/Janitor'', directory = ''/opt/tools''\<rparr>]"
    by code_simp
  from a r c1 c2 c3 c4 c5 show ?thesis by simp
qed

subsection \<open>The merged list has each key once\<close>

lemma set_first_occurrences: "set (first_occurrences seen xs) \<subseteq> set xs"
  by (induction xs arbitrary: seen) auto

text \<open>
  Claim C3. \<^verbatim>\<open>scanAllPathDirectories\<close> resolves to a list \<open>res\<close> in which no key
  \<^verbatim>\<open>name:path\<close>, hence no pair of name and path, occurs twice. \<open>res\<close> is a subsequence of the
  scanned records in visiting order (search-path order, then listing order), it has every
  key that was scanned, and each of its records is the first scanned record with its key:
  the earliest occurrence is kept, the later ones are dropped. Two scanned records with
  the same name and different paths have different keys, so both keys are in \<open>res\<close>, on two
  records; and when no two scanned records with different name or path share a key, every
  scanned pair of name and path is in \<open>res\<close>.
\<close>

theorem scanAllPathDirectories_dedup:
  "\<exists>res. scanAllPathDirectories h fs = Inr res \<and>
     distinct (map exec_key res) \<and>
     distinct (map (\<lambda>e. (ExecutableInfo.name e, ExecutableInfo.path e)) res) \<and>
     subseq res (scanned_records h fs) \<and>
     exec_key ` set res = exec_key ` set (scanned_records h fs) \<and>
     (\<forall>e\<in>set res. find (\<lambda>x. exec_key x = exec_key e) (scanned_records h fs) = Some e) \<and>
     (\<forall>a\<in>set (scanned_records h fs). \<forall>b\<in>set (scanned_records h fs).
        ExecutableInfo.name a = ExecutableInfo.name b \<and>
        ExecutableInfo.path a \<noteq> ExecutableInfo.path b \<longrightarrow>
        (\<exists>a'\<in>set res. \<exists>b'\<in>set res.
           a' \<noteq> b' \<and> exec_key a' = exec_key a \<and> exec_key b' = exec_key b)) \<and>
     ((\<forall>x\<in>set (scanned_records h fs). \<forall>y\<in>set (scanned_records h fs).
         exec_key x = exec_key y \<longrightarrow>
         ExecutableInfo.name x = ExecutableInfo.name y \<and>
         ExecutableInfo.path x = ExecutableInfo.path y) \<longrightarrow>
      (\<forall>a\<in>set (scanned_records h fs). \<exists>a'\<in>set res.
         ExecutableInfo.name a' = ExecutableInfo.name a \<and>
         ExecutableInfo.path a' = ExecutableInfo.path a))"
proof -
  let ?xs = "scanned_records h fs"
  let ?res = "first_occurrences {} ?xs"
  have res: "scanAllPathDirectories h fs = Inr ?res"
    by (rule scanAllPathDirectories_eq)
  have d1: "distinct (map exec_key ?res)"
    by (rule distinct_first_occurrences)
  then have d2: "distinct (map (\<lambda>e. (ExecutableInfo.name e, ExecutableInfo.path e)) ?res)"
    by (rule distinct_name_path)
  have sub: "subseq ?res ?xs"
    by (rule subseq_first_occurrences)
  have keys: "exec_key ` set ?res = exec_key ` set ?xs"
    by (simp add: keys_first_occurrences)
  have first: "\<forall>e\<in>set ?res. find (\<lambda>x. exec_key x = exec_key e) ?xs = Some e"
    by (simp add: find_first_occurrences)
  have kept: "\<exists>a'\<in>set ?res. exec_key a' = exec_key a" if "a \<in> set ?xs" for a
  proof -
    from that have "exec_key a \<in> exec_key ` set ?res"
      by (simp only: keys) (rule imageI)
    then show ?thesis by force
  qed
  have both: "\<forall>a\<in>set ?xs. \<forall>b\<in>set ?xs.
      ExecutableInfo.name a = ExecutableInfo.name b \<and>
      ExecutableInfo.path a \<noteq> ExecutableInfo.path b \<longrightarrow>
      (\<exists>a'\<in>set ?res. \<exists>b'\<in>set ?res.
         a' \<noteq> b' \<and> exec_key a' = exec_key a \<and> exec_key b' = exec_key b)"
  proof (intro ballI impI)
    fix a b
    assume a: "a \<in> set ?xs" and b: "b \<in> set ?xs"
      and ab: "ExecutableInfo.name a = ExecutableInfo.name b \<and>
        ExecutableInfo.path a \<noteq> ExecutableInfo.path b"
    from ab have ne: "exec_key a \<noteq> exec_key b"
      by (simp add: exec_key_same_name)
    from kept [OF a] obtain a' where a': "a' \<in> set ?res" "exec_key a' = exec_key a"
      by blast
    from kept [OF b] obtain b' where b': "b' \<in> set ?res" "exec_key b' = exec_key b"
      by blast
    from ne a'(2) b'(2) have "a' \<noteq> b'" by auto
    with a' b' show "\<exists>a'\<in>set ?res. \<exists>b'\<in>set ?res.
        a' \<noteq> b' \<and> exec_key a' = exec_key a \<and> exec_key b' = exec_key b"
      by blast
  qed
  have pairs: "(\<forall>x\<in>set ?xs. \<forall>y\<in>set ?xs. exec_key x = exec_key y \<longrightarrow>
         ExecutableInfo.name x = ExecutableInfo.name y \<and>
         ExecutableInfo.path x = ExecutableInfo.path y) \<longrightarrow>
      (\<forall>a\<in>set ?xs. \<exists>a'\<in>set ?res.
         ExecutableInfo.name a' = ExecutableInfo.name a \<and>
         ExecutableInfo.path a' = ExecutableInfo.path a)"
  proof (intro impI ballI)
    fix a
    assume inj: "\<forall>x\<in>set ?xs. \<forall>y\<in>set ?xs. exec_key x = exec_key y \<longrightarrow>
         ExecutableInfo.name x = ExecutableInfo.name y \<and>
         ExecutableInfo.path x = ExecutableInfo.path y"
      and a: "a \<in> set ?xs"
    from kept [OF a] obtain a' where a': "a' \<in> set ?res" "exec_key a' = exec_key a"
      by blast
    from a'(1) have "a' \<in> set ?xs"
      using set_first_occurrences [of "{}" ?xs] by blast
    with inj a a'(2) have "ExecutableInfo.name a' = ExecutableInfo.name a \<and>
        ExecutableInfo.path a' = ExecutableInfo.path a"
      by blast
    with a'(1) show "\<exists>a'\<in>set ?res.
        ExecutableInfo.name a' = ExecutableInfo.name a \<and>
        ExecutableInfo.path a' = ExecutableInfo.path a"
      by blast
  qed
  show ?thesis
    by (rule exI [of _ ?res]) (intro conjI res d1 d2 sub keys first both pairs)
qed

text \<open>
  On the sample host: \<^verbatim>\<open>/usr/bin\<close> is scanned twice and its \<^verbatim>\<open>git\<close> is kept once; the
  \<^verbatim>\<open>git\<close> of \<^verbatim>\<open>/usr/local/bin\<close> and the \<^verbatim>\<open>git\<close> of \<^verbatim>\<open>/usr/bin\<close> are both kept.
\<close>

theorem scanAllPathDirectories_dedup_witness:
  "scanned_records linux_host posix_fs = [git_local, git_usr, git_usr, janitor] \<and>
   scanAllPathDirectories linux_host posix_fs = Inr [git_local, git_usr, janitor] \<and>
   ExecutableInfo.name git_local = ExecutableInfo.name git_usr \<and>
   ExecutableInfo.path git_local \<noteq> ExecutableInfo.path git_usr \<and>
   list_all (\<lambda>x. list_all (\<lambda>y. exec_key x = exec_key y \<longrightarrow>
       ExecutableInfo.name x = ExecutableInfo.name y \<and>
       ExecutableInfo.path x = ExecutableInfo.path y)
     (scanned_records linux_host posix_fs)) (scanned_records linux_host posix_fs) \<and>
   distinct (map exec_key [git_local, git_usr, janitor]) \<and>
   subseq [git_local, git_usr, janitor] [git_local, git_usr, git_usr, janitor] \<and>
   find (\<lambda>x. exec_key x = exec_key git_usr) [git_local, git_usr, git_usr, janitor] =
     Some git_usr \<and>
   list_ex (\<lambda>a'. list_ex (\<lambda>b'.
       a' \<noteq> b' \<and> exec_key a' = exec_key git_local \<and> exec_key b' = exec_key git_usr)
     [git_local, git_usr, janitor]) [git_local, git_usr, janitor] \<and>
   list_all (\<lambda>a. list_ex (\<lambda>a'.
       ExecutableInfo.name a' = ExecutableInfo.name a \<and>
       ExecutableInfo.path a' = ExecutableInfo.path a) [git_local, git_usr, janitor])
     [git_local, git_usr, git_usr, janitor]"
proof -
  have scanned: "scanned_records linux_host posix_fs = [git_local, git_usr, git_usr, janitor]"
    by code_simp
  have result: "scanAllPathDirectories linux_host posix_fs = Inr [git_local, git_usr, janitor]"
    by code_simp
  have names: "ExecutableInfo.name git_local = ExecutableInfo.name git_usr \<and>
      ExecutableInfo.path git_local \<noteq> ExecutableInfo.path git_usr"
    by (simp add: git_local_def git_usr_def)
  have inj: "list_all (\<lambda>x. list_all (\<lambda>y. exec_key x = exec_key y \<longrightarrow>
       ExecutableInfo.name x = ExecutableInfo.name y \<and>
       ExecutableInfo.path x = ExecutableInfo.path y)
     (scanned_records linux_host posix_fs)) (scanned_records linux_host posix_fs)"
    unfolding scanned by code_simp
  from scanAllPathDirectories_dedup [of linux_host posix_fs]
  obtain res where res: "scanAllPathDirectories linux_host posix_fs = Inr res"
    and d: "distinct (map exec_key res)"
    and sub: "subseq res (scanned_records linux_host posix_fs)"
    and first: "\<forall>e\<in>set res.
      find (\<lambda>x. exec_key x = exec_key e) (scanned_records linux_host posix_fs) = Some e"
    and both: "\<forall>a\<in>set (scanned_records linux_host posix_fs).
      \<forall>b\<in>set (scanned_records linux_host posix_fs).
        ExecutableInfo.name a = ExecutableInfo.name b \<and>
        ExecutableInfo.path a \<noteq> ExecutableInfo.path b \<longrightarrow>
        (\<exists>a'\<in>set res. \<exists>b'\<in>set res.
           a' \<noteq> b' \<and> exec_key a' = exec_key a \<and> exec_key b' = exec_key b)"
    and pairs: "(\<forall>x\<in>set (scanned_records linux_host posix_fs).
        \<forall>y\<in>set (scanned_records linux_host posix_fs).
         exec_key x = exec_key y \<longrightarrow>
         ExecutableInfo.name x = ExecutableInfo.name y \<and>
         ExecutableInfo.path x = ExecutableInfo.path y) \<longrightarrow>
      (\<forall>a\<in>set (scanned_records linux_host posix_fs). \<exists>a'\<in>set res.
         ExecutableInfo.name a' = ExecutableInfo.name a \<and>
         ExecutableInfo.path a' = ExecutableInfo.path a)"
    by blast
  from res result have eq: "res = [git_local, git_usr, janitor]" by simp
  from d eq have c1: "distinct (map exec_key [git_local, git_usr, janitor])"
    by simp
  from sub eq scanned
  have c2: "subseq [git_local, git_usr, janitor] [git_local, git_usr, git_usr, janitor]"
    by simp
  from first eq scanned
  have c3: "find (\<lambda>x. exec_key x = exec_key git_usr) [git_local, git_usr, git_usr, janitor] =
      Some git_usr"
    by simp
  have "git_local \<in> set (scanned_records linux_host posix_fs)"
    and "git_usr \<in> set (scanned_records linux_host posix_fs)"
    by (simp_all add: scanned)
  with both names
  have "\<exists>a'\<in>set res. \<exists>b'\<in>set res.
      a' \<noteq> b' \<and> exec_key a' = exec_key git_local \<and> exec_key b' = exec_key git_usr"
    by blast
  then have c4: "list_ex (\<lambda>a'. list_ex (\<lambda>b'.
        a' \<noteq> b' \<and> exec_key a' = exec_key git_local \<and> exec_key b' = exec_key git_usr)
      [git_local, git_usr, janitor]) [git_local, git_usr, janitor]"
    unfolding eq list_ex_iff .
  from inj have "\<forall>x\<in>set (scanned_records linux_host posix_fs).
        \<forall>y\<in>set (scanned_records linux_host posix_fs).
         exec_key x = exec_key y \<longrightarrow>
         ExecutableInfo.name x = ExecutableInfo.name y \<and>
         ExecutableInfo.path x = ExecutableInfo.path y"
    by (simp only: list_all_iff)
  with pairs
  have "\<forall>a\<in>set (scanned_records linux_host posix_fs). \<exists>a'\<in>set res.
      ExecutableInfo.name a' = ExecutableInfo.name a \<and>
      ExecutableInfo.path a' = ExecutableInfo.path a"
    by (rule mp)
  then have c5: "list_all (\<lambda>a. list_ex (\<lambda>a'.
        ExecutableInfo.name a' = ExecutableInfo.name a \<and>
        ExecutableInfo.path a' = ExecutableInfo.path a) [git_local, git_usr, janitor])
      [git_local, git_usr, git_usr, janitor]"
    unfolding eq scanned list_ex_iff list_all_iff .
  from scanned result names inj c1 c2 c3 c4 c5 show ?thesis by (simp only: simp_thms)
qed

end
